theory Spec2Isabelle
  imports Main "HOL-Library.Word"
begin

unbundle bit_operations_syntax

section \<open>Values, errors and the outside world\<close>

text \<open>
  The server is a TypeScript program whose functions read a SQLite database, the clock,
  a random source, the DNS and HTTP endpoints. The embedding makes each of these explicit:
  \<^item> everything the program can change is a field of the record \<open>world\<close>, which every
    function takes and returns;
  \<^item> everything the program can only observe (the environment variable, the clock, random
    bytes, the block cipher, the answers of DNS and HTTP servers) is a field of the record
    \<open>env\<close>, a family of oracles indexed by how many readings were taken before;
  \<^item> a thrown exception or a rejected promise is the left summand of the result;
  \<^item> \<open>trace\<close> lists, in order, the endpoint-cache lookups, DNS queries, HTTP requests and
    timer waits that were performed.
  Strings are byte strings: a JavaScript string is represented by the UTF-8 encoding of
  its code points, a surrogate pair being the one code point it stands for (four bytes).
  An unpaired surrogate, which UTF-8 proper leaves out, is written in the three-byte form
  that the same scheme gives it (\<open>ED A0 80\<close> for U+D800 up to \<open>ED BF BF\<close> for
  U+DFFF), so that every JavaScript string has exactly one representation.
  Numbers are integers. Writes of the database file and of the log are not modelled.
\<close>

type_synonym byte = "8 word"
type_synonym buffer = "byte list"

datatype error = Error (err_code: "string option") (err_message: string)

datatype 'a http_result =
    Throws error
  | NotOk nat string "string option"
  | Ok 'a

text \<open>
  \<open>Throws e\<close>: \<open>fetch\<close> or \<open>response.json()\<close> rejected with \<open>e\<close>.
  \<open>NotOk status statusText d\<close>: a response with \<open>response.ok\<close> false, whose JSON body
  carries \<open>error_description\<close> \<open>d\<close> (\<open>None\<close> when the body has none or does not parse).
  \<open>Ok x\<close>: a response with \<open>response.ok\<close> true whose body parses to \<open>x\<close>.
\<close>

datatype jsval = JString string | JOther

record SCPConfig =
  dns_resolver :: string
  dns_cache_ttl :: int
  poll_interval :: int
  max_poll_attempts :: int
  token_refresh_threshold :: int
  request_timeout :: int
  demo_mode :: bool
  demo_endpoint :: string

record config_json =
  json_dns_resolver :: "string option"
  json_dns_cache_ttl :: "int option"
  json_poll_interval :: "int option"
  json_max_poll_attempts :: "int option"
  json_token_refresh_threshold :: "int option"
  json_request_timeout :: "int option"
  json_demo_mode :: "bool option"
  json_demo_endpoint :: "string option"

datatype config_file = NoFile | Unparseable | JsonObject config_json

text \<open>
  The file \<open>~/.scp/config.json\<close>: absent, present with text that \<open>JSON.parse\<close> rejects, or
  present with an object in which each key of \<open>SCPConfig\<close> is there or not.
\<close>

record envelope =
  iv :: string
  data :: string
  tag :: string

text \<open>
  An encrypted token is stored as the text \<open>JSON.stringify({iv, data, tag})\<close> of three hex
  strings. \<open>JSON.parse\<close> inverts \<open>JSON.stringify\<close> on such objects, and the model holds the
  object itself.
\<close>

record MerchantAuthorization =
  merchant_domain :: string
  scp_endpoint :: string
  customer_id :: string
  customer_email :: string
  access_token_encrypted :: envelope
  refresh_token_encrypted :: envelope
  expires_at :: int
  scopes :: "string list"
  created_at :: int
  updated_at :: int

record SCPCapabilities =
  version :: string
  protocol_version :: string
  scopes_supported :: "string list option"
  authorization_endpoint :: string
  token_endpoint :: string
  revocation_endpoint :: string
  grant_types_supported :: "string list"
  code_challenge_methods_supported :: "string list"
  token_endpoint_auth_methods_supported :: "string list"
  magic_link_supported :: bool
  webhook_support :: bool
  rate_limit :: "(int \<times> int) option"

record EndpointCache =
  domain :: string
  endpoint :: string
  capabilities :: "SCPCapabilities option"
  discovered_at :: int
  ttl :: int

record key_json =
  salt :: string
  key :: string

record AuthorizationRequest =
  req_email :: string
  req_client_id :: string
  req_client_name :: string
  req_domain :: string
  req_scopes :: "string list"
  req_code_challenge :: string
  req_code_challenge_method :: string
  req_redirect_uri :: string
  req_state :: string

record AuthorizationResponse =
  auth_request_id :: string
  email_sent :: bool
  init_expires_in :: int
  resp_poll_interval :: "int option"

record PollResponse =
  status :: string
  code :: "string option"
  reason :: "string option"

record TokenResponse =
  access_token :: string
  refresh_token :: string
  token_type :: string
  expires_in :: int
  scope :: string
  token_customer_id :: string
  email :: string

datatype event =
    CacheLookup string
  | DnsTxt string
  | HttpGet string
  | HttpHead string
  | HttpPostJson string AuthorizationRequest
  | HttpPostForm string "(string \<times> string) list"
  | Sleep int

record env =
  SCP_TEST_ENDPOINT :: "string option"
  clock :: "nat \<Rightarrow> int"
  random :: "nat \<Rightarrow> nat \<Rightarrow> byte"
  keystream :: "buffer \<Rightarrow> buffer \<Rightarrow> nat \<Rightarrow> byte"
  gcm_tag :: "buffer \<Rightarrow> buffer \<Rightarrow> buffer \<Rightarrow> nat \<Rightarrow> byte"
  base64url :: "buffer \<Rightarrow> string"
  sha256_base64url :: "string \<Rightarrow> string"
  dns_txt :: "nat \<Rightarrow> string \<Rightarrow> error + string list list"
  http_well_known :: "nat \<Rightarrow> string \<Rightarrow> jsval option http_result"
  http_head :: "nat \<Rightarrow> string \<Rightarrow> error + string option"
  http_capabilities :: "nat \<Rightarrow> string \<Rightarrow> SCPCapabilities http_result"
  http_init :: "nat \<Rightarrow> string \<Rightarrow> AuthorizationRequest \<Rightarrow> AuthorizationResponse http_result"
  http_poll :: "nat \<Rightarrow> string \<Rightarrow> PollResponse http_result"
  http_token :: "nat \<Rightarrow> string \<Rightarrow> (string \<times> string) list \<Rightarrow> TokenResponse http_result"
  http_revoke :: "nat \<Rightarrow> string \<Rightarrow> (string \<times> string) list \<Rightarrow> unit http_result"

text \<open>
  \<open>SCP_TEST_ENDPOINT\<close> is the environment variable. \<open>clock n\<close> is the value of the
  \<open>n\<close>-th call of \<open>Date.now()\<close> and \<open>random n i\<close> byte \<open>i\<close> of the \<open>n\<close>-th call of
  \<open>randomBytes\<close>. AES-256-GCM is the counter-mode keystream \<open>keystream key iv\<close>, which
  is XORed onto the text, and the 16 bytes \<open>gcm_tag key iv ciphertext\<close> of the
  authentication tag. \<open>base64url\<close> and \<open>sha256_base64url\<close> are the encoders of the PKCE
  module. \<open>dns_txt n q\<close> and the \<open>http\<close> fields are what the resolver and the servers
  answer to the request that follows \<open>n\<close> earlier ones; in \<open>http_well_known\<close> the answer
  \<open>Ok None\<close> is a body that is \<open>null\<close> and \<open>Ok (Some v)\<close> a body whose property
  \<open>endpoint\<close> is \<open>v\<close>; \<open>http_head\<close> answers with the value of the header
  \<open>SCP-Endpoint\<close>.
\<close>

record world =
  merchant_authorizations :: "MerchantAuthorization list"
  endpoint_cache :: "EndpointCache list"
  encryption_keys :: "key_json option"
  masterKeyCache :: "buffer option"
  config_json_file :: config_file
  now_calls :: nat
  random_calls :: nat
  trace :: "event list"

type_synonym 'a io = "world \<Rightarrow> (error + 'a) \<times> world"

definition io_return :: "'a \<Rightarrow> 'a io" where
  "io_return x = (\<lambda>w. (Inr x, w))"

definition io_throw :: "error \<Rightarrow> 'a io" where
  "io_throw e = (\<lambda>w. (Inl e, w))"

definition io_bind :: "'a io \<Rightarrow> ('a \<Rightarrow> 'b io) \<Rightarrow> 'b io" where
  "io_bind m f = (\<lambda>w. case m w of (Inl e, w') \<Rightarrow> (Inl e, w') | (Inr x, w') \<Rightarrow> f x w')"

definition io_catch :: "'a io \<Rightarrow> (error \<Rightarrow> 'a io) \<Rightarrow> 'a io" where
  "io_catch m h = (\<lambda>w. case m w of (Inl e, w') \<Rightarrow> h e w' | (Inr x, w') \<Rightarrow> (Inr x, w'))"

text \<open>
  \<open>io_bind\<close> is \<open>await\<close> followed by the rest of the function; \<open>io_catch m h\<close> is
  \<open>try { m } catch (error) { h error }\<close>: what \<open>m\<close> changed before it threw stays changed.
\<close>

definition is_network :: "event \<Rightarrow> bool" where
  "is_network ev = (case ev of CacheLookup _ \<Rightarrow> False | Sleep _ \<Rightarrow> False | _ \<Rightarrow> True)"

definition requests :: "world \<Rightarrow> nat" where
  "requests w = length (filter is_network (trace w))"

definition emit :: "event \<Rightarrow> world \<Rightarrow> world" where
  "emit ev w = w\<lparr>trace := trace w @ [ev]\<rparr>"

definition Date_now :: "env \<Rightarrow> int io" where
  "Date_now e = (\<lambda>w. (Inr (clock e (now_calls w)), w\<lparr>now_calls := Suc (now_calls w)\<rparr>))"

definition randomBytes :: "env \<Rightarrow> nat \<Rightarrow> buffer io" where
  "randomBytes e n =
     (\<lambda>w. (Inr (map (random e (random_calls w)) [0..<n]),
            w\<lparr>random_calls := Suc (random_calls w)\<rparr>))"

definition setTimeout_wait :: "int \<Rightarrow> unit io" where
  "setTimeout_wait ms = (\<lambda>w. (Inr (), emit (Sleep ms) w))"

definition truthy :: "string option \<Rightarrow> bool" where
  "truthy s = (case s of None \<Rightarrow> False | Some t \<Rightarrow> t \<noteq> [])"

definition or_else :: "string option \<Rightarrow> string \<Rightarrow> string" where
  "or_else s d = (case s of None \<Rightarrow> d | Some t \<Rightarrow> if t = [] then d else t)"

text \<open>
  \<open>truthy s\<close> is the test \<open>if (s)\<close> and \<open>or_else s d\<close> the expression \<open>s || d\<close> for a
  value that is a string, \<open>undefined\<close> or \<open>null\<close>: the empty string is falsy.
\<close>

definition startsWith :: "string \<Rightarrow> string \<Rightarrow> bool" where
  "startsWith s p = (take (length p) s = p)"

definition endsWith :: "string \<Rightarrow> string \<Rightarrow> bool" where
  "endsWith s p = (length p \<le> length s \<and> drop (length s - length p) s = p)"

fun includes_str :: "string \<Rightarrow> string \<Rightarrow> bool" where
  "includes_str [] p = (p = [])"
| "includes_str (c # cs) p = (startsWith (c # cs) p \<or> includes_str cs p)"

fun split_space :: "string \<Rightarrow> string list" where
  "split_space [] = [[]]"
| "split_space (c # cs) =
     (if c = CHR '' '' then [] # split_space cs
      else (case split_space cs of [] \<Rightarrow> [[c]] | x # xs \<Rightarrow> (c # x) # xs))"

function show_nat :: "nat \<Rightarrow> string" where
  "show_nat n =
     (if n < 10 then [char_of (48 + n)]
      else show_nat (n div 10) @ [char_of (48 + n mod 10)])"
  by pat_completeness auto
termination
  by (relation "measure (\<lambda>n. n)") auto


section \<open>Configuration (config.ts)\<close>

definition DEFAULT_CONFIG :: SCPConfig where
  "DEFAULT_CONFIG =
     \<lparr>dns_resolver = ''1.1.1.1'',
      dns_cache_ttl = 86400,
      poll_interval = 2,
      max_poll_attempts = 150,
      token_refresh_threshold = 300,
      request_timeout = 30000,
      demo_mode = True,
      demo_endpoint = ''https://demo.shoppercontextprotocol.io/v1''\<rparr>"

definition stringify_config :: "SCPConfig \<Rightarrow> config_json" where
  "stringify_config c =
     \<lparr>json_dns_resolver = Some (dns_resolver c),
      json_dns_cache_ttl = Some (dns_cache_ttl c),
      json_poll_interval = Some (poll_interval c),
      json_max_poll_attempts = Some (max_poll_attempts c),
      json_token_refresh_threshold = Some (token_refresh_threshold c),
      json_request_timeout = Some (request_timeout c),
      json_demo_mode = Some (demo_mode c),
      json_demo_endpoint = Some (demo_endpoint c)\<rparr>"

definition pick :: "'a option \<Rightarrow> 'a \<Rightarrow> 'a" where
  "pick v d = (case v of None \<Rightarrow> d | Some x \<Rightarrow> x)"

definition merge_with_defaults :: "config_json \<Rightarrow> SCPConfig" where
  "merge_with_defaults j =
     \<lparr>dns_resolver = pick (json_dns_resolver j) (dns_resolver DEFAULT_CONFIG),
      dns_cache_ttl = pick (json_dns_cache_ttl j) (dns_cache_ttl DEFAULT_CONFIG),
      poll_interval = pick (json_poll_interval j) (poll_interval DEFAULT_CONFIG),
      max_poll_attempts = pick (json_max_poll_attempts j) (max_poll_attempts DEFAULT_CONFIG),
      token_refresh_threshold =
        pick (json_token_refresh_threshold j) (token_refresh_threshold DEFAULT_CONFIG),
      request_timeout = pick (json_request_timeout j) (request_timeout DEFAULT_CONFIG),
      demo_mode = pick (json_demo_mode j) (demo_mode DEFAULT_CONFIG),
      demo_endpoint = pick (json_demo_endpoint j) (demo_endpoint DEFAULT_CONFIG)\<rparr>"

text \<open>
  \<open>merge_with_defaults j\<close> is the object \<open>{ ...DEFAULT_CONFIG, ...config }\<close>. When the file
  is absent \<open>loadConfig\<close> writes the defaults to it.
\<close>

definition loadConfig :: "SCPConfig io" where
  "loadConfig =
     (\<lambda>w. case config_json_file w of
        NoFile \<Rightarrow>
          (Inr DEFAULT_CONFIG, w\<lparr>config_json_file := JsonObject (stringify_config DEFAULT_CONFIG)\<rparr>)
      | Unparseable \<Rightarrow> (Inr DEFAULT_CONFIG, w)
      | JsonObject j \<Rightarrow> (Inr (merge_with_defaults j), w))"

definition saveConfig :: "SCPConfig \<Rightarrow> unit io" where
  "saveConfig c = (\<lambda>w. (Inr (), w\<lparr>config_json_file := JsonObject (stringify_config c)\<rparr>))"

definition getTestEndpointOverride :: "env \<Rightarrow> string option" where
  "getTestEndpointOverride e =
     (if truthy (SCP_TEST_ENDPOINT e) then SCP_TEST_ENDPOINT e else None)"

definition checkTestEndpoint :: "env \<Rightarrow> string \<Rightarrow> string option" where
  "checkTestEndpoint e dname =
     (let override = getTestEndpointOverride e in
      if truthy override then override else None)"

definition setDemoMode :: "bool \<Rightarrow> string option \<Rightarrow> unit io" where
  "setDemoMode enabled endpoint_arg =
     io_bind loadConfig (\<lambda>config.
       let config1 = config\<lparr>demo_mode := enabled\<rparr>;
           config2 = (if truthy endpoint_arg
                      then config1\<lparr>demo_endpoint := the endpoint_arg\<rparr> else config1)
       in saveConfig config2)"

section \<open>The database (database-sqljs.ts)\<close>

text \<open>
  Each table is the list of its rows. \<open>merchant_domain\<close> and \<open>domain\<close> are \<open>UNIQUE\<close>
  columns: \<open>INSERT ... ON CONFLICT DO UPDATE\<close> rewrites the row that has the key and
  leaves the columns it does not name (\<open>created_at\<close>) as they are. The row number \<open>id\<close>,
  which no function of the program reads, is left out.
\<close>

definition storeAuthorization :: "MerchantAuthorization \<Rightarrow> unit io" where
  "storeAuthorization auth =
     (\<lambda>w. let rows = merchant_authorizations w in
        (Inr (),
         w\<lparr>merchant_authorizations :=
             (if \<exists>r \<in> set rows. merchant_domain r = merchant_domain auth
              then map (\<lambda>r. if merchant_domain r = merchant_domain auth
                             then auth\<lparr>created_at := created_at r\<rparr> else r) rows
              else rows @ [auth])\<rparr>))"

definition getAuthorization :: "string \<Rightarrow> MerchantAuthorization option io" where
  "getAuthorization merchantDomain =
     (\<lambda>w. (Inr (find (\<lambda>r. merchant_domain r = merchantDomain) (merchant_authorizations w)), w))"

definition deleteAuthorization :: "string \<Rightarrow> unit io" where
  "deleteAuthorization merchantDomain =
     (\<lambda>w. (Inr (),
            w\<lparr>merchant_authorizations :=
                filter (\<lambda>r. merchant_domain r \<noteq> merchantDomain) (merchant_authorizations w)\<rparr>))"

definition updateAuthorizationTokens ::
  "env \<Rightarrow> string \<Rightarrow> envelope \<Rightarrow> envelope \<Rightarrow> int \<Rightarrow> unit io" where
  "updateAuthorizationTokens e merchantDomain accessTokenEncrypted refreshTokenEncrypted expiresAt =
     io_bind (Date_now e) (\<lambda>now w.
       (Inr (),
        w\<lparr>merchant_authorizations :=
            map (\<lambda>r. if merchant_domain r = merchantDomain
                      then r\<lparr>access_token_encrypted := accessTokenEncrypted,
                             refresh_token_encrypted := refreshTokenEncrypted,
                             expires_at := expiresAt,
                             updated_at := now\<rparr>
                      else r) (merchant_authorizations w)\<rparr>))"

definition cacheEndpoint :: "EndpointCache \<Rightarrow> unit io" where
  "cacheEndpoint c =
     (\<lambda>w. let rows = endpoint_cache w; row = c\<lparr>ttl := (if ttl c = 0 then 86400 else ttl c)\<rparr> in
        (Inr (),
         w\<lparr>endpoint_cache :=
             (if \<exists>r \<in> set rows. domain r = domain c
              then map (\<lambda>r. if domain r = domain c then row else r) rows
              else rows @ [row])\<rparr>))"

definition getCachedEndpoint :: "env \<Rightarrow> string \<Rightarrow> EndpointCache option io" where
  "getCachedEndpoint e dname =
     (\<lambda>w0. let w = emit (CacheLookup dname) w0 in
        case find (\<lambda>r. domain r = dname) (endpoint_cache w) of
          None \<Rightarrow> (Inr None, w)
        | Some row \<Rightarrow>
            io_bind (Date_now e) (\<lambda>now.
              let age = now - discovered_at row in
              if age > ttl row * 1000 then io_return None else io_return (Some row)) w)"

definition storeEncryptionKey :: "env \<Rightarrow> key_json \<Rightarrow> unit io" where
  "storeEncryptionKey e keyEncrypted =
     io_bind (Date_now e) (\<lambda>now w. (Inr (), w\<lparr>encryption_keys := Some keyEncrypted\<rparr>))"

definition getEncryptionKey :: "key_json option io" where
  "getEncryptionKey = (\<lambda>w. (Inr (encryption_keys w), w))"

section \<open>Token encryption (encryption.ts)\<close>

definition KEY_LENGTH :: nat where "KEY_LENGTH = 32"
definition IV_LENGTH :: nat where "IV_LENGTH = 16"
definition SALT_LENGTH :: nat where "SALT_LENGTH = 32"
definition AUTH_TAG_LENGTH :: nat where "AUTH_TAG_LENGTH = 16"

definition hexdigit :: "nat \<Rightarrow> char" where
  "hexdigit n = ''0123456789abcdef'' ! n"

definition hexval :: "char \<Rightarrow> nat option" where
  "hexval c =
     (let n = (of_char c :: nat) in
      if 48 \<le> n \<and> n \<le> 57 then Some (n - 48)
      else if 97 \<le> n \<and> n \<le> 102 then Some (n - 87)
      else if 65 \<le> n \<and> n \<le> 70 then Some (n - 55)
      else None)"

definition toString_hex :: "buffer \<Rightarrow> string" where
  "toString_hex bs =
     concat (map (\<lambda>b. [hexdigit (unat b div 16), hexdigit (unat b mod 16)]) bs)"

text \<open>
  \<open>Buffer.from(s, 'hex')\<close> decodes pairs of hex digits and stops at the first pair that
  is not one; a last single character is dropped.
\<close>

fun Buffer_from_hex :: "string \<Rightarrow> buffer" where
  "Buffer_from_hex (h # l # rest) =
     (case (hexval h, hexval l) of
        (Some a, Some b) \<Rightarrow> of_nat (a * 16 + b) # Buffer_from_hex rest
      | _ \<Rightarrow> [])"
| "Buffer_from_hex _ = []"

definition byte_of_char :: "char \<Rightarrow> byte" where
  "byte_of_char c = of_nat (of_char c)"

definition char_of_byte :: "byte \<Rightarrow> char" where
  "char_of_byte b = char_of (unat b)"

text \<open>
  Encoding a string with \<open>'utf8'\<close> (\<open>cipher.update(token, 'utf8')\<close>): Node writes the
  UTF-8 bytes of every code point and, for an unpaired surrogate, the bytes \<open>EF BF BD\<close>
  of the replacement character U+FFFD. On the representation: every three-byte form of a
  surrogate is replaced by \<open>EF BF BD\<close> and the other bytes are copied.
\<close>

definition REPLACEMENT :: buffer where
  "REPLACEMENT = [0xEF, 0xBF, 0xBD]"

definition between :: "byte \<Rightarrow> byte \<Rightarrow> byte \<Rightarrow> bool" where
  "between lower upper c = (lower \<le> c \<and> c \<le> upper)"

fun replace_surrogates :: "buffer \<Rightarrow> buffer" where
  "replace_surrogates (b # c1 # c2 # rest) =
     (if b = 0xED \<and> between 0xA0 0xBF c1 \<and> between 0x80 0xBF c2
      then REPLACEMENT @ replace_surrogates rest
      else b # replace_surrogates (c1 # c2 # rest))"
| "replace_surrogates bs = bs"

definition utf8_bytes :: "string \<Rightarrow> buffer" where
  "utf8_bytes s = replace_surrogates (map byte_of_char s)"

text \<open>
  Decoding a buffer with \<open>'utf8'\<close> (\<open>decrypted.toString('utf8')\<close>) never fails. The
  first byte of a sequence tells how many bytes follow and in which range the next one has
  to lie (\<open>following\<close>: none after \<open>00..7F\<close>, one after \<open>C2..DF\<close>, two after
  \<open>E0..EF\<close>, three after \<open>F0..F4\<close>; the second byte is restricted after \<open>E0\<close>,
  \<open>ED\<close>, \<open>F0\<close> and \<open>F4\<close>, which excludes overlong forms, surrogates and code
  points above U+10FFFF). A complete sequence is one code point. A byte that can neither
  begin a sequence nor continue the current one ends it: what was read of the sequence
  decodes to U+FFFD, and that byte is read again as the beginning of the next sequence.
  The result is given in the representation of strings, where U+FFFD is \<open>EF BF BD\<close>.
\<close>

definition following :: "byte \<Rightarrow> (byte \<Rightarrow> bool) list option" where
  "following b =
     (if b \<le> 0x7F then Some []
      else if between 0xC2 0xDF b then Some [between 0x80 0xBF]
      else if between 0xE0 0xEF b then
        Some [between (if b = 0xE0 then 0xA0 else 0x80) (if b = 0xED then 0x9F else 0xBF),
              between 0x80 0xBF]
      else if between 0xF0 0xF4 b then
        Some [between (if b = 0xF0 then 0x90 else 0x80) (if b = 0xF4 then 0x8F else 0xBF),
              between 0x80 0xBF, between 0x80 0xBF]
      else None)"

fun accepted :: "(byte \<Rightarrow> bool) list \<Rightarrow> buffer \<Rightarrow> nat" where
  "accepted (p # ps) (c # cs) = (if p c then Suc (accepted ps cs) else 0)"
| "accepted _ _ = 0"

fun utf8_decode :: "buffer \<Rightarrow> buffer" where
  "utf8_decode [] = []"
| "utf8_decode (b # bs) =
     (case following b of
        None \<Rightarrow> REPLACEMENT @ utf8_decode bs
      | Some need \<Rightarrow>
          (let n = accepted need bs in
           (if n = length need then b # take n bs else REPLACEMENT) @ utf8_decode (drop n bs)))"

definition utf8_string :: "buffer \<Rightarrow> string" where
  "utf8_string bs = map char_of_byte (utf8_decode bs)"

definition ctr_xor :: "(nat \<Rightarrow> byte) \<Rightarrow> buffer \<Rightarrow> buffer" where
  "ctr_xor ks bs = map (\<lambda>(i, b). b XOR ks i) (zip [0..<length bs] bs)"

definition getAuthTag :: "env \<Rightarrow> buffer \<Rightarrow> buffer \<Rightarrow> buffer \<Rightarrow> buffer" where
  "getAuthTag e k nonce ciphertext = map (gcm_tag e k nonce ciphertext) [0..<AUTH_TAG_LENGTH]"

text \<open>
  The calls into \<open>node:crypto\<close>. \<open>createCipheriv\<close> and \<open>createDecipheriv\<close> throw unless an
  \<open>aes-256-gcm\<close> key has 32 bytes. \<open>setAuthTag\<close> throws unless the tag has one of the
  lengths GCM allows; \<open>final\<close> throws unless the tag is the leading part, of that length,
  of the tag computed over the ciphertext. Nothing in \<open>decryptToken\<close> catches.
\<close>

definition createCipheriv :: "buffer \<Rightarrow> unit io" where
  "createCipheriv k =
     (if length k = KEY_LENGTH then io_return ()
      else io_throw (Error (Some ''ERR_CRYPTO_INVALID_KEYLEN'') ''Invalid key length''))"

definition createDecipheriv :: "buffer \<Rightarrow> unit io" where
  "createDecipheriv k =
     (if length k = KEY_LENGTH then io_return ()
      else io_throw (Error (Some ''ERR_CRYPTO_INVALID_KEYLEN'') ''Invalid key length''))"

definition setAuthTag :: "buffer \<Rightarrow> unit io" where
  "setAuthTag authTag =
     (if length authTag \<in> {4, 8, 12, 13, 14, 15, 16} then io_return ()
      else io_throw (Error (Some ''ERR_CRYPTO_INVALID_AUTH_TAG'')
                      (''Invalid authentication tag length: '' @ show_nat (length authTag))))"

definition decipher_final :: "env \<Rightarrow> buffer \<Rightarrow> buffer \<Rightarrow> buffer \<Rightarrow> buffer \<Rightarrow> unit io" where
  "decipher_final e k nonce ciphertext authTag =
     (if authTag = take (length authTag) (getAuthTag e k nonce ciphertext) then io_return ()
      else io_throw (Error None ''Unsupported state or unable to authenticate data''))"

definition getMasterKey :: "env \<Rightarrow> buffer io" where
  "getMasterKey e =
     (\<lambda>w. case masterKeyCache w of
        Some k \<Rightarrow> (Inr k, w)
      | None \<Rightarrow>
          io_bind getEncryptionKey (\<lambda>keyData.
            case keyData of
              None \<Rightarrow>
                io_bind (randomBytes e SALT_LENGTH) (\<lambda>salt_bytes.
                io_bind (randomBytes e KEY_LENGTH) (\<lambda>key_bytes.
                io_bind (storeEncryptionKey e
                           \<lparr>salt = toString_hex salt_bytes, key = toString_hex key_bytes\<rparr>) (\<lambda>_ w1.
                  (Inr key_bytes, w1\<lparr>masterKeyCache := Some key_bytes\<rparr>))))
            | Some parsed \<Rightarrow> (\<lambda>w1.
                (Inr (Buffer_from_hex (key parsed)),
                 w1\<lparr>masterKeyCache := Some (Buffer_from_hex (key parsed))\<rparr>))) w)"

definition initEncryption :: "env \<Rightarrow> unit io" where
  "initEncryption e = io_bind (getMasterKey e) (\<lambda>_. io_return ())"

definition encryptToken :: "env \<Rightarrow> string \<Rightarrow> envelope io" where
  "encryptToken e token =
     (\<lambda>w. case masterKeyCache w of
        None \<Rightarrow>
          (Inl (Error None ''Encryption not initialized - call initEncryption() first''), w)
      | Some k \<Rightarrow>
          io_bind (randomBytes e IV_LENGTH) (\<lambda>nonce.
          io_bind (createCipheriv k) (\<lambda>_.
            let encrypted = ctr_xor (keystream e k nonce) (utf8_bytes token);
                authTag = getAuthTag e k nonce encrypted
            in io_return \<lparr>iv = toString_hex nonce,
                          data = toString_hex encrypted,
                          tag = toString_hex authTag\<rparr>)) w)"

definition decryptToken :: "env \<Rightarrow> envelope \<Rightarrow> string io" where
  "decryptToken e encrypted =
     (\<lambda>w. case masterKeyCache w of
        None \<Rightarrow>
          (Inl (Error None ''Encryption not initialized - call initEncryption() first''), w)
      | Some k \<Rightarrow>
          (let nonce = Buffer_from_hex (iv encrypted);
               ciphertext = Buffer_from_hex (data encrypted);
               authTag = Buffer_from_hex (tag encrypted)
           in io_bind (createDecipheriv k) (\<lambda>_.
              io_bind (setAuthTag authTag) (\<lambda>_.
              io_bind (decipher_final e k nonce ciphertext authTag) (\<lambda>_.
                io_return (utf8_string (ctr_xor (keystream e k nonce) ciphertext)))))) w)"


text \<open>
  \<open>flip_bit_in i bs\<close> is the buffer \<open>bs\<close> with bit \<open>i\<close> inverted, for \<open>i\<close> below
  \<open>8 * length bs\<close>.
\<close>


section \<open>PKCE (pkce.ts)\<close>

definition generateCodeVerifier :: "env \<Rightarrow> string io" where
  "generateCodeVerifier e = io_bind (randomBytes e 32) (\<lambda>b. io_return (base64url e b))"

definition generateCodeChallenge :: "env \<Rightarrow> string \<Rightarrow> string" where
  "generateCodeChallenge e verifier = sha256_base64url e verifier"

definition generatePKCE :: "env \<Rightarrow> (string \<times> string \<times> string) io" where
  "generatePKCE e =
     io_bind (generateCodeVerifier e) (\<lambda>code_verifier.
       let code_challenge = generateCodeChallenge e code_verifier in
       io_return (code_verifier, code_challenge, ''S256''))"

definition generateState :: "env \<Rightarrow> string io" where
  "generateState e = io_bind (randomBytes e 32) (\<lambda>b. io_return (base64url e b))"

section \<open>The OAuth client (oauth-client.ts)\<close>

definition CLIENT_ID :: string where "CLIENT_ID = ''scp-mcp-server''"
definition CLIENT_NAME :: string where "CLIENT_NAME = ''SCP MCP Server''"
definition REDIRECT_URI :: string where "REDIRECT_URI = ''urn:ietf:wg:oauth:2.0:oob''"

text \<open>
  \<open>fetch ev answer\<close> sends one request: it appends the request to the trace and returns
  what the oracle answers to a request that follows \<open>requests w\<close> earlier ones.
\<close>

definition fetch :: "event \<Rightarrow> (nat \<Rightarrow> 'a) \<Rightarrow> 'a io" where
  "fetch ev answer = (\<lambda>w. (Inr (answer (requests w)), emit ev w))"

record flow_session =
  authRequestId :: string
  pollInterval :: "int option"
  codeVerifier :: string
  state :: string

definition initiateAuthorization ::
  "env \<Rightarrow> string \<Rightarrow> string \<Rightarrow> string \<Rightarrow> string list \<Rightarrow> flow_session io" where
  "initiateAuthorization e endpoint_url email_arg domain_arg scopes_arg =
     io_bind (generatePKCE e) (\<lambda>(code_verifier, code_challenge, code_challenge_method).
     io_bind (generateState e) (\<lambda>state_value.
       let request = \<lparr>req_email = email_arg,
                      req_client_id = CLIENT_ID,
                      req_client_name = CLIENT_NAME,
                      req_domain = domain_arg,
                      req_scopes = scopes_arg,
                      req_code_challenge = code_challenge,
                      req_code_challenge_method = code_challenge_method,
                      req_redirect_uri = REDIRECT_URI,
                      req_state = state_value\<rparr>;
           url = endpoint_url @ ''/authorize/init''
       in io_bind (fetch (HttpPostJson url request) (\<lambda>n. http_init e n url request)) (\<lambda>response.
            case response of
              Throws err \<Rightarrow> io_throw err
            | NotOk st txt description \<Rightarrow>
                io_throw (Error None
                  (or_else description (''Authorization failed: '' @ show_nat st @ '' '' @ txt)))
            | Ok authResponse \<Rightarrow>
                io_return \<lparr>authRequestId = auth_request_id authResponse,
                           pollInterval = resp_poll_interval authResponse,
                           codeVerifier = code_verifier,
                           state = state_value\<rparr>)))"

text \<open>
  The \<open>while\<close> loop of \<open>pollAuthorization\<close>, with the counter \<open>attempts\<close> as an argument.
\<close>

function poll_loop :: "env \<Rightarrow> string \<Rightarrow> int \<Rightarrow> int \<Rightarrow> int \<Rightarrow> string io" where
  "poll_loop e url maxAttempts interval attempts w =
     (if attempts < maxAttempts then
        (case fetch (HttpGet url) (\<lambda>n. http_poll e n url) w of
           (Inl err, w1) \<Rightarrow> (Inl err, w1)
         | (Inr response, w1) \<Rightarrow>
             (case response of
                Throws err \<Rightarrow> (Inl err, w1)
              | NotOk st txt description \<Rightarrow>
                  (Inl (Error None (''Poll failed: '' @ show_nat st @ '' '' @ txt)), w1)
              | Ok pollResponse \<Rightarrow>
                  if status pollResponse = ''authorized'' \<and> truthy (code pollResponse)
                  then (Inr (the (code pollResponse)), w1)
                  else if status pollResponse = ''denied''
                  then (Inl (Error None (''Authorization denied: '' @
                               or_else (reason pollResponse) ''User declined'')), w1)
                  else if status pollResponse = ''expired''
                  then (Inl (Error None ''Authorization request expired''), w1)
                  else poll_loop e url maxAttempts interval (attempts + 1)
                         (snd (setTimeout_wait (interval * 1000) w1))))
      else (Inl (Error None ''Authorization timeout: maximum poll attempts reached''), w))"
  by pat_completeness auto
termination
  by (relation "measure (\<lambda>(e, url, maxAttempts, interval, attempts, w). nat (maxAttempts - attempts))")
     auto

text \<open>
  An argument that is \<open>None\<close> was not passed (or was \<open>undefined\<close>) and takes the default of
  the signature: 150 attempts, 2 seconds.
\<close>

definition pollAuthorization ::
  "env \<Rightarrow> string \<Rightarrow> string \<Rightarrow> int option \<Rightarrow> int option \<Rightarrow> string \<Rightarrow> string io" where
  "pollAuthorization e endpoint_url auth_id maxAttempts interval domain_arg =
     poll_loop e
       (endpoint_url @ ''/authorize/poll?auth_request_id='' @ auth_id @ ''&client_id='' @ CLIENT_ID)
       (pick maxAttempts 150) (pick interval 2) 0"

definition exchangeCodeForTokens :: "env \<Rightarrow> string \<Rightarrow> string \<Rightarrow> string \<Rightarrow> TokenResponse io" where
  "exchangeCodeForTokens e endpoint_url code_arg code_verifier =
     (let params = [(''grant_type'', ''authorization_code''),
                    (''code'', code_arg),
                    (''code_verifier'', code_verifier),
                    (''client_id'', CLIENT_ID),
                    (''redirect_uri'', REDIRECT_URI)];
          url = endpoint_url @ ''/token''
      in io_bind (fetch (HttpPostForm url params) (\<lambda>n. http_token e n url params)) (\<lambda>response.
           case response of
             Throws err \<Rightarrow> io_throw err
           | NotOk st txt description \<Rightarrow>
               io_throw (Error None
                 (or_else description (''Token exchange failed: '' @ show_nat st @ '' '' @ txt)))
           | Ok tokenResponse \<Rightarrow> io_return tokenResponse))"

definition refreshAccessToken :: "env \<Rightarrow> string \<Rightarrow> string \<Rightarrow> TokenResponse io" where
  "refreshAccessToken e endpoint_url refreshToken =
     (let params = [(''grant_type'', ''refresh_token''),
                    (''refresh_token'', refreshToken),
                    (''client_id'', CLIENT_ID)];
          url = endpoint_url @ ''/token''
      in io_bind (fetch (HttpPostForm url params) (\<lambda>n. http_token e n url params)) (\<lambda>response.
           case response of
             Throws err \<Rightarrow> io_throw err
           | NotOk st txt description \<Rightarrow>
               io_throw (Error None
                 (or_else description (''Token refresh failed: '' @ show_nat st @ '' '' @ txt)))
           | Ok tokenResponse \<Rightarrow> io_return tokenResponse))"

definition revokeToken :: "env \<Rightarrow> string \<Rightarrow> string \<Rightarrow> unit io" where
  "revokeToken e endpoint_url token =
     (let params = [(''token'', token), (''client_id'', CLIENT_ID)];
          url = endpoint_url @ ''/revoke''
      in io_bind (fetch (HttpPostForm url params) (\<lambda>n. http_revoke e n url params)) (\<lambda>response.
           case response of
             Throws err \<Rightarrow> io_throw err
           | NotOk st txt description \<Rightarrow>
               io_throw (Error None (''Token revocation failed: '' @ show_nat st @ '' '' @ txt))
           | Ok u \<Rightarrow> io_return ()))"

definition completeAuthorizationFlow ::
  "env \<Rightarrow> string \<Rightarrow> string \<Rightarrow> string \<Rightarrow> string list \<Rightarrow> int option
     \<Rightarrow> (TokenResponse \<times> string list) io" where
  "completeAuthorizationFlow e endpoint_url email_arg domain_arg scopes_arg maxPollAttempts =
     io_bind (initiateAuthorization e endpoint_url email_arg domain_arg scopes_arg) (\<lambda>session.
     io_bind (pollAuthorization e endpoint_url (authRequestId session)
                (Some (pick maxPollAttempts 150)) (pollInterval session) domain_arg) (\<lambda>code_value.
     io_bind (exchangeCodeForTokens e endpoint_url code_value (codeVerifier session)) (\<lambda>tokenResponse.
       io_return (tokenResponse, split_space (scope tokenResponse)))))"


section \<open>Endpoint discovery (dns-lookup.ts)\<close>

definition DNS_QUERY_PREFIX :: string where "DNS_QUERY_PREFIX = ''_scp._tcp.''"

text \<open>
  The class \<open>\s\<close> of the regular expression: the white space and line terminators of
  ECMAScript, which are U+0009 to U+000D, U+0020, U+00A0, U+1680, U+2000 to U+200A,
  U+2028, U+2029, U+202F, U+205F, U+3000 and U+FEFF, each in the representation of strings
  (its UTF-8 bytes). \<open>space_at s\<close>: the text \<open>s\<close> begins with one of them.
\<close>

definition white_space :: "string list" where
  "white_space =
     [[CHR 0x09], [CHR 0x0A], [CHR 0x0B], [CHR 0x0C], [CHR 0x0D], [CHR 0x20],
      [CHR 0xC2, CHR 0xA0],
      [CHR 0xE1, CHR 0x9A, CHR 0x80],
      [CHR 0xE2, CHR 0x80, CHR 0x80], [CHR 0xE2, CHR 0x80, CHR 0x81],
      [CHR 0xE2, CHR 0x80, CHR 0x82], [CHR 0xE2, CHR 0x80, CHR 0x83],
      [CHR 0xE2, CHR 0x80, CHR 0x84], [CHR 0xE2, CHR 0x80, CHR 0x85],
      [CHR 0xE2, CHR 0x80, CHR 0x86], [CHR 0xE2, CHR 0x80, CHR 0x87],
      [CHR 0xE2, CHR 0x80, CHR 0x88], [CHR 0xE2, CHR 0x80, CHR 0x89],
      [CHR 0xE2, CHR 0x80, CHR 0x8A],
      [CHR 0xE2, CHR 0x80, CHR 0xA8], [CHR 0xE2, CHR 0x80, CHR 0xA9],
      [CHR 0xE2, CHR 0x80, CHR 0xAF],
      [CHR 0xE2, CHR 0x81, CHR 0x9F],
      [CHR 0xE3, CHR 0x80, CHR 0x80],
      [CHR 0xEF, CHR 0xBB, CHR 0xBF]]"

definition space_at :: "string \<Rightarrow> bool" where
  "space_at s = list_ex (startsWith s) white_space"

text \<open>The longest beginning of a text in which no white space begins: \<open>[^\s]*\<close>.\<close>

fun non_space_run :: "string \<Rightarrow> string" where
  "non_space_run [] = []"
| "non_space_run (c # cs) = (if space_at (c # cs) then [] else c # non_space_run cs)"

text \<open>
  \<open>txt.match(/endpoint=(https:\/\/[^\s]+)/)\<close>: the leftmost position where the text
  \<open>endpoint=https://\<close> is followed by at least one character that is not white space;
  the group is \<open>https://\<close> with the longest run of such characters.
\<close>

fun match_endpoint :: "string \<Rightarrow> string option" where
  "match_endpoint [] = None"
| "match_endpoint (c # cs) =
     (let url = non_space_run (drop (length ''endpoint=https://'') (c # cs)) in
      if startsWith (c # cs) ''endpoint=https://'' \<and> url \<noteq> []
      then Some (''https://'' @ url)
      else match_endpoint cs)"

text \<open>
  The \<open>for\<close> loop over the TXT records; a record is the list of its chunks. The
  resolver decodes the chunks from the bytes of the record, so they hold no unpaired
  surrogate, and joining their representations is joining the strings.
\<close>

fun scan_records :: "string list list \<Rightarrow> string option" where
  "scan_records [] = None"
| "scan_records (chunks # records) =
     (let txt = concat chunks in
      if startsWith txt ''v=scp1'' then
        (case match_endpoint txt of
           Some m \<Rightarrow> Some m
         | None \<Rightarrow> scan_records records)
      else scan_records records)"

definition tryDNSDiscovery :: "env \<Rightarrow> string \<Rightarrow> string option io" where
  "tryDNSDiscovery e domain_arg =
     (let query = DNS_QUERY_PREFIX @ domain_arg in
      io_bind (fetch (DnsTxt query) (\<lambda>n. dns_txt e n query)) (\<lambda>answer.
        case answer of
          Inr records \<Rightarrow> io_return (scan_records records)
        | Inl err \<Rightarrow>
            if err_code err = Some ''ENOTFOUND'' \<or> err_code err = Some ''ENODATA''
            then io_return None
            else io_throw err))"

definition tryFallbackDiscovery :: "env \<Rightarrow> string \<Rightarrow> string option io" where
  "tryFallbackDiscovery e domain_arg =
     (let wellKnownUrl = ''https://'' @ domain_arg @ ''/.well-known/customer-context-protocol'' in
      io_bind (fetch (HttpGet wellKnownUrl) (\<lambda>n. http_well_known e n wellKnownUrl)) (\<lambda>response.
        case (case response of
                Ok (Some (JString s)) \<Rightarrow> if s \<noteq> [] then Some s else None
              | _ \<Rightarrow> None) of
          Some s \<Rightarrow> io_return (Some s)
        | None \<Rightarrow>
            (let rootUrl = ''https://'' @ domain_arg @ ''/'' in
             io_bind (fetch (HttpHead rootUrl) (\<lambda>n. http_head e n rootUrl)) (\<lambda>headers.
               case headers of
                 Inr scpEndpoint \<Rightarrow>
                   if truthy scpEndpoint then io_return scpEndpoint else io_return None
               | Inl err \<Rightarrow> io_return None))))"

definition discoverSCPEndpoint :: "env \<Rightarrow> string \<Rightarrow> string option io" where
  "discoverSCPEndpoint e domain_arg =
     (let testEndpoint = checkTestEndpoint e domain_arg in
      if truthy testEndpoint then io_return testEndpoint
      else
        io_bind loadConfig (\<lambda>config.
          if demo_mode config then
            io_return (Some (or_else (Some (demo_endpoint config))
                               ''https://demo.shoppercontextprotocol.io/v1''))
          else
            io_bind (getCachedEndpoint e domain_arg) (\<lambda>cached.
              case cached of
                Some c \<Rightarrow> io_return (Some (endpoint c))
              | None \<Rightarrow>
                  io_bind (tryDNSDiscovery e domain_arg) (\<lambda>dnsEndpoint.
                    if truthy dnsEndpoint then
                      io_bind (Date_now e) (\<lambda>now.
                      io_bind (cacheEndpoint \<lparr>domain = domain_arg,
                                              endpoint = the dnsEndpoint,
                                              capabilities = None,
                                              discovered_at = now,
                                              ttl = 86400\<rparr>) (\<lambda>_.
                        io_return dnsEndpoint))
                    else
                      io_bind (tryFallbackDiscovery e domain_arg) (\<lambda>fallbackEndpoint.
                        if truthy fallbackEndpoint then
                          io_bind (Date_now e) (\<lambda>now.
                          io_bind (cacheEndpoint \<lparr>domain = domain_arg,
                                                  endpoint = the fallbackEndpoint,
                                                  capabilities = None,
                                                  discovered_at = now,
                                                  ttl = 86400\<rparr>) (\<lambda>_.
                            io_return fallbackEndpoint))
                        else io_return None)))))"

definition fetchCapabilities :: "env \<Rightarrow> string \<Rightarrow> SCPCapabilities io" where
  "fetchCapabilities e endpoint_url =
     (let capabilitiesUrl = endpoint_url @ ''/capabilities'' in
      io_bind (fetch (HttpGet capabilitiesUrl) (\<lambda>n. http_capabilities e n capabilitiesUrl))
        (\<lambda>response.
           case response of
             Throws err \<Rightarrow> io_throw err
           | NotOk st txt description \<Rightarrow>
               io_throw (Error None
                 (''Failed to fetch capabilities: '' @ show_nat st @ '' '' @ txt))
           | Ok caps \<Rightarrow> io_return caps))"

definition discoverWithCapabilities ::
  "env \<Rightarrow> string \<Rightarrow> (string \<times> SCPCapabilities option) option io" where
  "discoverWithCapabilities e domain_arg =
     io_bind (discoverSCPEndpoint e domain_arg) (\<lambda>found.
       if \<not> truthy found then io_return None
       else
         io_catch
           (io_bind (fetchCapabilities e (the found)) (\<lambda>caps.
            io_bind (Date_now e) (\<lambda>now.
            io_bind (cacheEndpoint \<lparr>domain = domain_arg,
                                    endpoint = the found,
                                    capabilities = Some caps,
                                    discovered_at = now,
                                    ttl = 86400\<rparr>) (\<lambda>_.
              io_return (Some (the found, Some caps))))))
           (\<lambda>err. io_return (Some (the found, None))))"

section \<open>Token management (token-manager.ts)\<close>

definition TOKEN_REFRESH_THRESHOLD :: int where "TOKEN_REFRESH_THRESHOLD = 300000"

definition refreshTokenIfNeeded :: "env \<Rightarrow> MerchantAuthorization \<Rightarrow> unit io" where
  "refreshTokenIfNeeded e auth =
     io_bind (decryptToken e (refresh_token_encrypted auth)) (\<lambda>refreshToken.
       io_catch
         (io_bind (refreshAccessToken e (scp_endpoint auth) refreshToken) (\<lambda>tokenResponse.
          io_bind (encryptToken e (access_token tokenResponse)) (\<lambda>accessTokenEncrypted.
          io_bind (encryptToken e (refresh_token tokenResponse)) (\<lambda>refreshTokenEncrypted.
          io_bind (Date_now e) (\<lambda>now.
            let expiresAt = now + expires_in tokenResponse * 1000 in
            updateAuthorizationTokens e (merchant_domain auth)
              accessTokenEncrypted refreshTokenEncrypted expiresAt)))))
         (\<lambda>err. io_throw (Error None
            (''Failed to refresh token for '' @ merchant_domain auth @ '': '' @ err_message err))))"

definition getValidAccessToken :: "env \<Rightarrow> string \<Rightarrow> string io" where
  "getValidAccessToken e merchantDomain =
     io_bind (getAuthorization merchantDomain) (\<lambda>found.
       case found of
         None \<Rightarrow> io_throw (Error None (''No authorization found for '' @ merchantDomain))
       | Some auth \<Rightarrow>
           io_bind (Date_now e) (\<lambda>now.
             let timeUntilExpiry = expires_at auth - now in
             if timeUntilExpiry < TOKEN_REFRESH_THRESHOLD then
               io_bind (refreshTokenIfNeeded e auth) (\<lambda>_.
               io_bind (getAuthorization merchantDomain) (\<lambda>updated.
                 case updated of
                   None \<Rightarrow> io_throw (Error None ''Authorization lost after refresh'')
                 | Some updatedAuth \<Rightarrow> decryptToken e (access_token_encrypted updatedAuth)))
             else decryptToken e (access_token_encrypted auth)))"

section \<open>The tool handlers (server.ts)\<close>

text \<open>
  A handler returns one text message built from a template; the model returns the
  template and its arguments:
  \<^item> \<open>InvalidEmail email domain\<close>: "Invalid email address: ... Please use a REAL email
    address ...";
  \<^item> \<open>AlreadyAuthorized domain email scopes\<close>: "Already authorized with ... Email: ...
    Scopes: ...";
  \<^item> \<open>RevokeFirst domain stored requested\<close>: "Already authorized with ... using ... To
    authorize with a different email (...), please revoke the existing authorization
    first ...";
  \<^item> \<open>Connected again domain scope email\<close>: "Connected to ...!" or, when \<open>again\<close>,
    "Re-authorized ...!", with the granted scopes and the customer;
  \<^item> \<open>Revoked domain\<close>: "Revoked authorization for ...".
\<close>

datatype tool_result =
    InvalidEmail string string
  | AlreadyAuthorized string string "string list"
  | RevokeFirst string string string
  | Connected bool string string string
  | Revoked string

fun join_comma :: "string list \<Rightarrow> string" where
  "join_comma [] = []"
| "join_comma [x] = x"
| "join_comma (x # y # ys) = x @ '', '' @ join_comma (y # ys)"

text \<open>
  The first part of \<open>handleAuthorize\<close>, up to the end of \<open>if (existing) { ... }\<close>: the
  message it returns there, or \<open>None\<close> when control leaves the block.
\<close>

definition existing_check :: "MerchantAuthorization \<Rightarrow> string \<Rightarrow> string \<Rightarrow> string list
    \<Rightarrow> tool_result option" where
  "existing_check existing domain_arg email_arg scopes_arg =
     (let existingScopes = set (scopes existing);
          requestedScopes = set scopes_arg;
          scopesMatch = (card existingScopes = card requestedScopes \<and>
                         (\<forall>s \<in> requestedScopes. s \<in> existingScopes))
      in if scopesMatch \<and> customer_email existing = email_arg
         then Some (AlreadyAuthorized domain_arg (customer_email existing) (scopes existing))
         else if customer_email existing \<noteq> email_arg
         then Some (RevokeFirst domain_arg (customer_email existing) email_arg)
         else None)"

definition handleAuthorize :: "env \<Rightarrow> string \<Rightarrow> string \<Rightarrow> string list \<Rightarrow> tool_result io" where
  "handleAuthorize e domain_arg email_arg scopes_arg =
     (if endsWith email_arg ''@example.com'' \<or> includes_str email_arg ''example''
      then io_return (InvalidEmail email_arg domain_arg)
      else
        io_bind (getAuthorization domain_arg) (\<lambda>existing.
          case (case existing of
                  None \<Rightarrow> None
                | Some ex \<Rightarrow> existing_check ex domain_arg email_arg scopes_arg) of
            Some message \<Rightarrow> io_return message
          | None \<Rightarrow>
              io_bind (discoverWithCapabilities e domain_arg) (\<lambda>discovery.
                case discovery of
                  None \<Rightarrow>
                    io_throw (Error None
                      (''Could not discover Shopper Context Protocol endpoint for '' @ domain_arg))
                | Some (endpoint_url, caps) \<Rightarrow>
                    (let unsupported =
                           (case caps of
                              None \<Rightarrow> []
                            | Some c \<Rightarrow>
                                (case scopes_supported c of
                                   None \<Rightarrow> []
                                 | Some supported \<Rightarrow>
                                     filter (\<lambda>s. s \<notin> set supported) scopes_arg))
                     in if unsupported \<noteq> []
                        then io_throw (Error None
                               (''Unsupported scopes: '' @ join_comma unsupported))
                        else
                          io_bind (completeAuthorizationFlow e endpoint_url email_arg domain_arg
                                     scopes_arg None) (\<lambda>(tokenResponse, granted).
                          io_bind (Date_now e) (\<lambda>now.
                          io_bind (encryptToken e (access_token tokenResponse)) (\<lambda>accessEnc.
                          io_bind (encryptToken e (refresh_token tokenResponse)) (\<lambda>refreshEnc.
                          io_bind (storeAuthorization
                                     \<lparr>merchant_domain = domain_arg,
                                      scp_endpoint = endpoint_url,
                                      customer_id = token_customer_id tokenResponse,
                                      customer_email = email tokenResponse,
                                      access_token_encrypted = accessEnc,
                                      refresh_token_encrypted = refreshEnc,
                                      expires_at = now + expires_in tokenResponse * 1000,
                                      scopes = split_space (scope tokenResponse),
                                      created_at = (case existing of
                                                      Some ex \<Rightarrow> created_at ex
                                                    | None \<Rightarrow> now),
                                      updated_at = now\<rparr>) (\<lambda>_.
                            io_return (Connected (existing \<noteq> None) domain_arg
                                         (scope tokenResponse) (email tokenResponse)))))))))))"

definition handleRevokeAuthorization :: "env \<Rightarrow> string \<Rightarrow> tool_result io" where
  "handleRevokeAuthorization e domain_arg =
     io_bind (getAuthorization domain_arg) (\<lambda>found.
       case found of
         None \<Rightarrow> io_throw (Error None (''No authorization found for '' @ domain_arg))
       | Some auth \<Rightarrow>
           io_bind (io_catch
                      (io_bind (getValidAccessToken e domain_arg) (\<lambda>accessToken.
                         revokeToken e (scp_endpoint auth) accessToken))
                      (\<lambda>err. io_return ())) (\<lambda>_.
           io_bind (deleteAuthorization domain_arg) (\<lambda>_.
             io_return (Revoked domain_arg))))"
section \<open>Notions used to state the properties\<close>

text \<open>
  A string is well formed when it has no unpaired surrogate, that is, when its
  representation is the UTF-8 encoding of a sequence of code points: every first byte
  is followed by the bytes that \<open>following\<close> asks for.
\<close>

fun valid_utf8 :: "buffer \<Rightarrow> bool" where
  "valid_utf8 [] = True"
| "valid_utf8 (b # bs) =
     (case following b of
        None \<Rightarrow> False
      | Some need \<Rightarrow> accepted need bs = length need \<and> valid_utf8 (drop (length need) bs))"

definition well_formed :: "string \<Rightarrow> bool" where
  "well_formed s = valid_utf8 (map byte_of_char s)"






text \<open>
  The text \<open>s\<close> after encoding with \<open>'utf8'\<close> and decoding again, which is \<open>s\<close> with
  U+FFFD in the place of every unpaired surrogate (\<open>String.prototype.toWellFormed\<close>), and
  the text that the ciphertext of an envelope \<open>x\<close> stands for under the key \<open>k\<close>.
\<close>

definition toWellFormed :: "string \<Rightarrow> string" where
  "toWellFormed s = utf8_string (utf8_bytes s)"


section \<open>A concrete environment\<close>

text \<open>
  An environment and worlds on which the theorems are instantiated: a clock that
  advances by one millisecond per reading, a counter as random source, a toy keystream
  and a toy tag (the first bytes of the ciphertext), and servers that do not answer.
\<close>

definition example_env :: env where
  "example_env =
     \<lparr>SCP_TEST_ENDPOINT = None,
      clock = (\<lambda>n. 1700000000000 + int n),
      random = (\<lambda>n i. of_nat (n + i)),
      keystream = (\<lambda>k nonce i. of_nat (7 * i + 3)),
      gcm_tag = (\<lambda>k nonce c j. (if j < length c then c ! j else 0)),
      base64url = toString_hex,
      sha256_base64url = (\<lambda>s. s),
      dns_txt = (\<lambda>n q. Inl (Error (Some ''ENOTFOUND'') ''queryTxt ENOTFOUND'')),
      http_well_known = (\<lambda>n u. Throws (Error None ''fetch failed'')),
      http_head = (\<lambda>n u. Inl (Error None ''fetch failed'')),
      http_capabilities = (\<lambda>n u. Throws (Error None ''fetch failed'')),
      http_init = (\<lambda>n u r. Throws (Error None ''fetch failed'')),
      http_poll = (\<lambda>n u. Throws (Error None ''fetch failed'')),
      http_token = (\<lambda>n u p. Throws (Error None ''fetch failed'')),
      http_revoke = (\<lambda>n u p. Throws (Error None ''fetch failed''))\<rparr>"

definition fresh_world :: world where
  "fresh_world =
     \<lparr>merchant_authorizations = [],
      endpoint_cache = [],
      encryption_keys = None,
      masterKeyCache = None,
      config_json_file = NoFile,
      now_calls = 0,
      random_calls = 0,
      trace = []\<rparr>"

definition ready_world :: world where
  "ready_world = snd (initEncryption example_env fresh_world)"

definition dns_env :: "string list list \<Rightarrow> env" where
  "dns_env records = example_env\<lparr>dns_txt := (\<lambda>n q. Inr records)\<rparr>"


text \<open>
  Notions for the poll loop: an answer that leaves the flow pending, the URL polled, the
  two events of one round of the loop, the error thrown when the attempts run out, and a
  world with more events on its trace.
\<close>

definition still_pending :: "PollResponse http_result \<Rightarrow> bool" where
  "still_pending r =
     (case r of
        Ok p \<Rightarrow> \<not> (status p = ''authorized'' \<and> truthy (code p))
                \<and> status p \<noteq> ''denied'' \<and> status p \<noteq> ''expired''
      | _ \<Rightarrow> False)"

definition poll_url :: "string \<Rightarrow> string \<Rightarrow> string" where
  "poll_url endpoint_url auth_id =
     endpoint_url @ ''/authorize/poll?auth_request_id='' @ auth_id @ ''&client_id='' @ CLIENT_ID"

definition poll_round :: "string \<Rightarrow> int \<Rightarrow> event list" where
  "poll_round url interval = [HttpGet url, Sleep (interval * 1000)]"

definition timeout_error :: error where
  "timeout_error = Error None ''Authorization timeout: maximum poll attempts reached''"

definition more_trace :: "event list \<Rightarrow> world \<Rightarrow> world" where
  "more_trace evs w = w\<lparr>trace := trace w @ evs\<rparr>"

definition poll_env :: "(nat \<Rightarrow> PollResponse http_result) \<Rightarrow> env" where
  "poll_env answers = example_env\<lparr>http_poll := (\<lambda>n u. answers n)\<rparr>"

definition approve_third :: "string \<Rightarrow> nat \<Rightarrow> PollResponse http_result" where
  "approve_third K n =
     (if n < 2 then Ok \<lparr>status = ''pending'', code = None, reason = None\<rparr>
      else Ok \<lparr>status = ''authorized'', code = Some K, reason = None\<rparr>)"

definition never_decided :: "nat \<Rightarrow> PollResponse http_result" where
  "never_decided n = Ok \<lparr>status = ''processing'', code = None, reason = None\<rparr>"

text \<open>
  Notions for the token manager: the refresh request sent for a record and a refresh
  token, the answer the server gives to it, the record stored for a domain, a stored
  envelope that decrypts to a given text, a record after a refresh, and the error that
  \<open>refreshTokenIfNeeded\<close> throws when the refresh failed with \<open>err\<close>.
\<close>

definition refresh_request :: "MerchantAuthorization \<Rightarrow> string \<Rightarrow> event" where
  "refresh_request a rt =
     HttpPostForm (scp_endpoint a @ ''/token'')
       [(''grant_type'', ''refresh_token''), (''refresh_token'', rt), (''client_id'', CLIENT_ID)]"

definition refresh_answer :: "env \<Rightarrow> world \<Rightarrow> MerchantAuthorization \<Rightarrow> string
    \<Rightarrow> TokenResponse http_result" where
  "refresh_answer e w a rt =
     http_token e (requests w) (scp_endpoint a @ ''/token'')
       [(''grant_type'', ''refresh_token''), (''refresh_token'', rt), (''client_id'', CLIENT_ID)]"

definition stored :: "world \<Rightarrow> string \<Rightarrow> MerchantAuthorization option" where
  "stored w d = find (\<lambda>r. merchant_domain r = d) (merchant_authorizations w)"

definition decrypts_to :: "env \<Rightarrow> world \<Rightarrow> envelope \<Rightarrow> string \<Rightarrow> bool" where
  "decrypts_to e w x T = (fst (decryptToken e x w) = Inr T)"

definition refreshed :: "MerchantAuthorization \<Rightarrow> envelope \<Rightarrow> envelope \<Rightarrow> int \<Rightarrow> int
    \<Rightarrow> MerchantAuthorization" where
  "refreshed a x1 x2 expiresAt now =
     a\<lparr>access_token_encrypted := x1, refresh_token_encrypted := x2,
       expires_at := expiresAt, updated_at := now\<rparr>"

definition refresh_failed :: "string \<Rightarrow> error \<Rightarrow> error" where
  "refresh_failed d err =
     Error None (''Failed to refresh token for '' @ d @ '': '' @ err_message err)"

text \<open>
  A world with one authorization record for \<open>shop.example\<close>, whose tokens are
  \<open>access-1\<close> and \<open>refresh-1\<close> encrypted under the key of \<open>ready_world\<close>, and
  environments in which the token endpoint always gives the same answer.
\<close>

definition sealed :: "env \<Rightarrow> string \<Rightarrow> envelope" where
  "sealed e T = projr (fst (encryptToken e T ready_world))"

definition shop_record :: "env \<Rightarrow> int \<Rightarrow> MerchantAuthorization" where
  "shop_record e expiry =
     \<lparr>merchant_domain = ''shop.example'',
      scp_endpoint = ''https://scp.shop.example/v1'',
      customer_id = ''c-1'',
      customer_email = ''ann@mail.test'',
      access_token_encrypted = sealed e ''access-1'',
      refresh_token_encrypted = sealed e ''refresh-1'',
      expires_at = expiry,
      scopes = [''orders'', ''loyalty''],
      created_at = 1600000000000,
      updated_at = 1600000000000\<rparr>"

definition shop_world :: "env \<Rightarrow> int \<Rightarrow> world" where
  "shop_world e expiry = ready_world\<lparr>merchant_authorizations := [shop_record e expiry]\<rparr>"

definition token_env :: "TokenResponse http_result \<Rightarrow> env" where
  "token_env answer = example_env\<lparr>http_token := (\<lambda>n u p. answer)\<rparr>"

definition new_tokens :: TokenResponse where
  "new_tokens =
     \<lparr>access_token = ''access-2'',
      refresh_token = ''refresh-2'',
      token_type = ''Bearer'',
      expires_in = 3600,
      scope = ''orders loyalty'',
      token_customer_id = ''c-1'',
      email = ''ann@mail.test''\<rparr>"

definition refusing_env :: env where
  "refusing_env = token_env (NotOk 400 ''Bad Request'' (Some ''invalid_grant''))"

text \<open>The records of the domains other than \<open>d\<close>.\<close>

definition other_rows :: "string \<Rightarrow> world \<Rightarrow> MerchantAuthorization list" where
  "other_rows d w = filter (\<lambda>r. merchant_domain r \<noteq> d) (merchant_authorizations w)"

text \<open>
  The test on the email address with which \<open>handleAuthorize\<close> begins: addresses that end
  in \<open>@example.com\<close> or contain \<open>example\<close> are refused before anything is read.
\<close>

definition placeholder_email :: "string \<Rightarrow> bool" where
  "placeholder_email email_arg =
     (endsWith email_arg ''@example.com'' \<or> includes_str email_arg ''example'')"

text \<open>
  A world whose record for \<open>shop.example\<close> carries the address that the server reported,
  here \<open>bob@example.com\<close>.
\<close>

definition placeholder_world :: world where
  "placeholder_world =
     ready_world\<lparr>merchant_authorizations :=
       [(shop_record example_env 1700000400000)\<lparr>customer_email := ''bob@example.com''\<rparr>]\<rparr>"

text \<open>
  What each source of the discovery chain holds for a domain, read off the environment and
  the world in which discovery starts: the override, the demo endpoint of the loaded
  configuration, the cache entry that has not expired, the DNS answer (and the error of a
  DNS failure that is not a miss), the well-known document, and the response header. The
  DNS query is the next request, the two HTTP requests follow it.
\<close>

definition override_source :: "env \<Rightarrow> string option" where
  "override_source e = (if truthy (SCP_TEST_ENDPOINT e) then SCP_TEST_ENDPOINT e else None)"

definition loaded_config :: "world \<Rightarrow> SCPConfig" where
  "loaded_config w =
     (case config_json_file w of
        JsonObject j \<Rightarrow> merge_with_defaults j
      | _ \<Rightarrow> DEFAULT_CONFIG)"

definition demo_source :: "world \<Rightarrow> string option" where
  "demo_source w =
     (if demo_mode (loaded_config w)
      then Some (if demo_endpoint (loaded_config w) = []
                 then ''https://demo.shoppercontextprotocol.io/v1''
                 else demo_endpoint (loaded_config w))
      else None)"

definition cache_source :: "env \<Rightarrow> world \<Rightarrow> string \<Rightarrow> string option" where
  "cache_source e w d =
     (case find (\<lambda>r. domain r = d) (endpoint_cache w) of
        None \<Rightarrow> None
      | Some row \<Rightarrow>
          if clock e (now_calls w) - discovered_at row > ttl row * 1000 then None
          else Some (endpoint row))"

definition dns_query :: "string \<Rightarrow> string" where
  "dns_query d = ''_scp._tcp.'' @ d"

definition well_known_url :: "string \<Rightarrow> string" where
  "well_known_url d = ''https://'' @ d @ ''/.well-known/customer-context-protocol''"

definition root_url :: "string \<Rightarrow> string" where
  "root_url d = ''https://'' @ d @ ''/''"

definition dns_failure :: "env \<Rightarrow> world \<Rightarrow> string \<Rightarrow> error option" where
  "dns_failure e w d =
     (case dns_txt e (requests w) (dns_query d) of
        Inr records \<Rightarrow> None
      | Inl err \<Rightarrow>
          if err_code err = Some ''ENOTFOUND'' \<or> err_code err = Some ''ENODATA'' then None
          else Some err)"

definition dns_source :: "env \<Rightarrow> world \<Rightarrow> string \<Rightarrow> string option" where
  "dns_source e w d =
     (case dns_txt e (requests w) (dns_query d) of
        Inr records \<Rightarrow> scan_records records
      | Inl err \<Rightarrow> None)"

definition well_known_source :: "env \<Rightarrow> world \<Rightarrow> string \<Rightarrow> string option" where
  "well_known_source e w d =
     (case http_well_known e (requests w + 1) (well_known_url d) of
        Ok (Some (JString s)) \<Rightarrow> if s = [] then None else Some s
      | _ \<Rightarrow> None)"

definition header_source :: "env \<Rightarrow> world \<Rightarrow> string \<Rightarrow> string option" where
  "header_source e w d =
     (case http_head e (requests w + 2) (root_url d) of
        Inr h \<Rightarrow> if truthy h then h else None
      | Inl err \<Rightarrow> None)"

text \<open>
  Environments and worlds for discovery: an override, a configuration in which demo mode
  was switched off, a cache entry ten seconds old, and servers that publish an endpoint
  in the well-known document or in the header.
\<close>

definition override_env :: env where
  "override_env = example_env\<lparr>SCP_TEST_ENDPOINT := Some ''http://localhost:8787/v1''\<rparr>"

definition well_known_env :: env where
  "well_known_env =
     example_env\<lparr>http_well_known := (\<lambda>n u. Ok (Some (JString ''https://wk.shop.example/v1'')))\<rparr>"

definition header_env :: env where
  "header_env = example_env\<lparr>http_head := (\<lambda>n u. Inr (Some ''https://hd.shop.example/v1''))\<rparr>"

definition live_world :: world where
  "live_world = snd (setDemoMode False None fresh_world)"

definition cached_world :: world where
  "cached_world =
     live_world\<lparr>endpoint_cache :=
       [\<lparr>domain = ''shop.example'', endpoint = ''https://cached.shop.example/v1'',
         capabilities = None, discovered_at = 1699999990000, ttl = 86400\<rparr>]\<rparr>"

section \<open>Token encryption\<close>

lemma hexval_hexdigit: "n < 16 \<Longrightarrow> hexval (hexdigit n) = Some n"
proof -
  have "\<forall>n \<in> set [0..<16]. hexval (hexdigit n) = Some n"
    by (simp add: upt_rec hexval_def hexdigit_def)
  then show "n < 16 \<Longrightarrow> hexval (hexdigit n) = Some n" by simp
qed

lemma Buffer_from_hex_toString_hex: "Buffer_from_hex (toString_hex bs) = bs"
proof (induction bs)
  case Nil
  show ?case by (simp add: toString_hex_def)
next
  case (Cons b bs)
  have "unat b < 2 ^ LENGTH(8)" by (rule unsigned_less)
  then have "unat b < 256" by simp
  then have d: "unat b div 16 < 16" by simp
  have m: "unat b mod 16 < 16" by simp
  have "(of_nat (unat b div 16 * 16 + unat b mod 16) :: byte) = b" by simp
  with Cons d m show ?case
    by (simp add: toString_hex_def hexval_hexdigit)
qed

lemma char_of_byte_of_char: "char_of_byte (byte_of_char c) = c"
proof -
  have "(of_char c :: nat) < 256" by simp
  then have "unat (of_nat (of_char c) :: byte) = of_char c"
    by (simp add: unsigned_of_nat take_bit_nat_eq_self)
  then show ?thesis by (simp add: char_of_byte_def byte_of_char_def)
qed

lemma utf8_decode_valid: "valid_utf8 bs \<Longrightarrow> utf8_decode bs = bs"
proof (induction bs rule: valid_utf8.induct)
  case 1
  show ?case by simp
next
  case (2 b bs)
  then show ?case by (auto split: option.splits simp: Let_def)
qed

lemma accepted_all:
  "accepted need bs = length need \<Longrightarrow>
     length need \<le> length bs \<and> (\<forall>j < length need. (need ! j) (bs ! j))"
proof (induction need bs rule: accepted.induct)
  case (1 p ps c cs)
  then show ?case by (auto split: if_splits simp: less_Suc_eq_0_disj)
qed simp_all

lemma following_range:
  "following b = Some need \<Longrightarrow> j < length need \<Longrightarrow> (need ! j) c \<Longrightarrow> between 0x80 0xBF c"
  by (auto simp: following_def between_def less_Suc_eq_0_disj word_le_nat_alt split: if_splits)

lemma following_surrogate:
  "following 0xED = Some need \<Longrightarrow> need \<noteq> [] \<and> (\<forall>c. (need ! 0) c \<longrightarrow> c \<le> 0x9F)"
  by (auto simp: following_def between_def)

lemma no_surrogate_valid:
  "valid_utf8 bs \<Longrightarrow> Suc i < length bs \<Longrightarrow> bs ! i = 0xED \<Longrightarrow> bs ! Suc i \<le> 0x9F"
proof (induction bs arbitrary: i rule: valid_utf8.induct)
  case 1
  then show ?case by simp
next
  case (2 b bs)
  from "2.prems"(1) obtain need where f: "following b = Some need"
    and acc: "accepted need bs = length need" and v: "valid_utf8 (drop (length need) bs)"
    by (auto split: option.splits)
  from accepted_all [OF acc] have len: "length need \<le> length bs"
    and all: "\<forall>j < length need. (need ! j) (bs ! j)" by simp_all
  show ?case
  proof (cases i)
    case 0
    with "2.prems" have b: "b = 0xED" by simp
    with f following_surrogate have "need \<noteq> []" "\<forall>c. (need ! 0) c \<longrightarrow> c \<le> 0x9F" by blast+
    with all have "bs ! 0 \<le> 0x9F" by auto
    with 0 show ?thesis by simp
  next
    case (Suc j)
    show ?thesis
    proof (cases "j < length need")
      case True
      with all have "(need ! j) (bs ! j)" by simp
      from following_range [OF f True this] have "between 0x80 0xBF (bs ! j)" .
      moreover from "2.prems" Suc have "bs ! j = 0xED" by simp
      ultimately show ?thesis by (simp add: between_def)
    next
      case False
      define m where "m = j - length need"
      from False have j: "j = length need + m" by (simp add: m_def)
      from "2.prems" Suc j have a: "Suc m < length (drop (length need) bs)" by simp
      from "2.prems" Suc j len have b: "drop (length need) bs ! m = 0xED" by simp
      from "2.IH" [OF f v a b] have "drop (length need) bs ! Suc m \<le> 0x9F" .
      with Suc j len show ?thesis by simp
    qed
  qed
qed

lemma replace_surrogates_id:
  "(\<And>i. Suc i < length bs \<Longrightarrow> bs ! i = 0xED \<Longrightarrow> bs ! Suc i \<le> 0x9F) \<Longrightarrow>
     replace_surrogates bs = bs"
proof (induction bs rule: replace_surrogates.induct)
  case (1 b c1 c2 rest)
  have n: "\<not> (b = 0xED \<and> between 0xA0 0xBF c1 \<and> between 0x80 0xBF c2)"
  proof
    assume h: "b = 0xED \<and> between 0xA0 0xBF c1 \<and> between 0x80 0xBF c2"
    with "1.prems" [of 0] have "c1 \<le> 0x9F" by simp
    with h show False by (simp add: between_def word_le_nat_alt)
  qed
  have "replace_surrogates (c1 # c2 # rest) = c1 # c2 # rest"
  proof (rule "1.IH"(2) [OF n])
    fix i assume "Suc i < length (c1 # c2 # rest)" "(c1 # c2 # rest) ! i = 0xED"
    with "1.prems" [of "Suc i"] show "(c1 # c2 # rest) ! Suc i \<le> 0x9F" by simp
  qed
  with n show ?case by auto
qed simp_all

lemma replace_surrogates_valid: "valid_utf8 bs \<Longrightarrow> replace_surrogates bs = bs"
  by (rule replace_surrogates_id) (rule no_surrogate_valid)

lemma utf8_string_utf8_bytes: "well_formed s \<Longrightarrow> utf8_string (utf8_bytes s) = s"
  by (simp add: well_formed_def utf8_string_def utf8_bytes_def replace_surrogates_valid
      utf8_decode_valid char_of_byte_of_char map_idI)

lemma toWellFormed_well_formed: "well_formed s \<Longrightarrow> toWellFormed s = s"
  by (simp add: toWellFormed_def utf8_string_utf8_bytes)


lemma well_formed_examples:
  "well_formed ''secret''" "well_formed ''access-1''" "well_formed ''refresh-1''"
  "well_formed ''access-2''" "well_formed ''refresh-2''"
  by (simp_all add: well_formed_def byte_of_char_def following_def between_def)

lemma ctr_xor_involution: "ctr_xor ks (ctr_xor ks bs) = bs"
  by (rule nth_equalityI) (simp_all add: ctr_xor_def xor.assoc)




lemma length_getAuthTag: "length (getAuthTag e k nonce c) = 16"
  by (simp add: getAuthTag_def AUTH_TAG_LENGTH_def)

lemma encryptToken_result:
  assumes "masterKeyCache w = Some k" and "length k = KEY_LENGTH"
  shows "encryptToken e T w =
     (Inr \<lparr>iv = toString_hex (map (random e (random_calls w)) [0..<IV_LENGTH]),
           data = toString_hex (ctr_xor (keystream e k (map (random e (random_calls w)) [0..<IV_LENGTH])) (utf8_bytes T)),
           tag = toString_hex (getAuthTag e k (map (random e (random_calls w)) [0..<IV_LENGTH])
                   (ctr_xor (keystream e k (map (random e (random_calls w)) [0..<IV_LENGTH])) (utf8_bytes T)))\<rparr>,
      w\<lparr>random_calls := Suc (random_calls w)\<rparr>)"
  using assms
  by (simp add: encryptToken_def io_bind_def io_return_def randomBytes_def createCipheriv_def Let_def)

lemma decryptToken_result:
  assumes "masterKeyCache w = Some k" and "length k = KEY_LENGTH"
    and "length (Buffer_from_hex (tag x)) = 16"
  shows "decryptToken e x w =
     (if Buffer_from_hex (tag x) = getAuthTag e k (Buffer_from_hex (iv x)) (Buffer_from_hex (data x))
      then (Inr (utf8_string (ctr_xor (keystream e k (Buffer_from_hex (iv x))) (Buffer_from_hex (data x)))), w)
      else (Inl (Error None ''Unsupported state or unable to authenticate data''), w))"
  using assms
  by (simp add: decryptToken_def io_bind_def io_return_def io_throw_def createCipheriv_def createDecipheriv_def
      setAuthTag_def decipher_final_def Let_def length_getAuthTag)




lemma ready_world_key:
  "masterKeyCache ready_world = Some (map (random example_env 1) [0..<KEY_LENGTH])"
  by (simp add: ready_world_def initEncryption_def getMasterKey_def fresh_world_def
      getEncryptionKey_def io_bind_def io_return_def randomBytes_def storeEncryptionKey_def
      Date_now_def)


lemma ready_world_unfold:
  "ready_world = fresh_world\<lparr>encryption_keys :=
        Some \<lparr>salt = toString_hex (map (random example_env 0) [0..<SALT_LENGTH]),
              key = toString_hex (map (random example_env 1) [0..<KEY_LENGTH])\<rparr>,
      masterKeyCache := Some (map (random example_env 1) [0..<KEY_LENGTH]),
      now_calls := 1, random_calls := 2\<rparr>"
  by (simp add: ready_world_def initEncryption_def getMasterKey_def fresh_world_def
      getEncryptionKey_def io_bind_def io_return_def randomBytes_def storeEncryptionKey_def
      Date_now_def)




section \<open>DNS TXT records\<close>

lemma non_space_run_split:
  "\<exists>post. s = non_space_run s @ post \<and> (post = [] \<or> space_at post)
      \<and> (\<forall>i < length (non_space_run s). \<not> space_at (drop i (non_space_run s) @ post))"
proof (induction s)
  case Nil
  show ?case by simp
next
  case (Cons c cs)
  show ?case
  proof (cases "space_at (c # cs)")
    case True
    then show ?thesis by simp
  next
    case False
    from Cons.IH obtain post where p: "cs = non_space_run cs @ post"
      "post = [] \<or> space_at post"
      "\<forall>i < length (non_space_run cs). \<not> space_at (drop i (non_space_run cs) @ post)"
      by blast
    have "\<not> space_at (drop i (c # non_space_run cs) @ post)"
      if "i < length (c # non_space_run cs)" for i
    proof (cases i)
      case 0
      with False p(1) show ?thesis by simp
    next
      case (Suc j)
      with that p(3) show ?thesis by simp
    qed
    with False p(1,2) show ?thesis by auto
  qed
qed

lemma match_endpoint_Some:
  "match_endpoint text_value = Some url \<Longrightarrow>
     \<exists>pre u post. text_value = pre @ ''endpoint='' @ url @ post \<and> url = ''https://'' @ u
        \<and> u \<noteq> [] \<and> (\<forall>i < length u. \<not> space_at (drop i u @ post))
        \<and> (post = [] \<or> space_at post)"
proof (induction text_value)
  case Nil
  then show ?case by simp
next
  case (Cons c cs)
  let ?lit = "''endpoint=https://''"
  let ?rest = "drop (length ?lit) (c # cs)"
  let ?u = "non_space_run ?rest"
  show ?case
  proof (cases "startsWith (c # cs) ?lit \<and> ?u \<noteq> []")
    case True
    with Cons.prems have url: "url = ''https://'' @ ?u" by (simp add: Let_def)
    from True have "take (length ?lit) (c # cs) = ?lit" by (simp add: startsWith_def)
    then have whole: "c # cs = ?lit @ ?rest" by (metis append_take_drop_id)
    from non_space_run_split [of ?rest] obtain post where
      rest: "?rest = ?u @ post" and post: "post = [] \<or> space_at post"
      and nosp: "\<forall>i < length ?u. \<not> space_at (drop i ?u @ post)" by blast
    have "c # cs = [] @ ''endpoint='' @ url @ post"
      using whole rest url by (metis append_Nil append_assoc append_Cons)
    with url True nosp post show ?thesis by blast
  next
    case False
    with Cons.prems have "match_endpoint cs = Some url" by (auto simp: Let_def)
    from Cons.IH [OF this] obtain pre u post where
      "cs = pre @ ''endpoint='' @ url @ post" "url = ''https://'' @ u" "u \<noteq> []"
      "\<forall>i < length u. \<not> space_at (drop i u @ post)" "post = [] \<or> space_at post" by blast
    then have "c # cs = (c # pre) @ ''endpoint='' @ url @ post" by simp
    with \<open>url = ''https://'' @ u\<close> \<open>u \<noteq> []\<close> \<open>\<forall>i < length u. \<not> space_at (drop i u @ post)\<close>
      \<open>post = [] \<or> space_at post\<close> show ?thesis by blast
  qed
qed

lemma scan_records_Some:
  "scan_records records = Some url \<Longrightarrow>
     \<exists>chunks \<in> set records. startsWith (concat chunks) ''v=scp1''
        \<and> match_endpoint (concat chunks) = Some url"
  by (induction records) (auto simp: Let_def split: if_splits option.splits)


lemma example_record:
  "scan_records [[''v=scp1 endpoint=https://x.example/v1'']] = Some ''https://x.example/v1''"
  by (simp add: startsWith_def space_at_def white_space_def Let_def)






section \<open>The poll loop\<close>

declare poll_loop.simps [simp del]

lemma requests_emit:
  "requests (emit ev w) = (if is_network ev then Suc (requests w) else requests w)"
  by (simp add: requests_def emit_def)

lemma requests_more_trace:
  "requests (more_trace evs w) = requests w + length (filter is_network evs)"
  by (simp add: requests_def more_trace_def)

lemma more_trace_more_trace: "more_trace ys (more_trace xs w) = more_trace (xs @ ys) w"
  by (simp add: more_trace_def)

lemma emit_more_trace: "emit ev w = more_trace [ev] w"
  by (simp add: emit_def more_trace_def)

lemma more_trace_Nil: "more_trace [] w = w"
  by (simp add: more_trace_def)

lemma fetch_apply: "fetch ev answer w = (Inr (answer (requests w)), emit ev w)"
  by (simp add: fetch_def)

lemma poll_loop_pending:
  assumes lt: "attempts < maxAttempts" and sp: "still_pending (http_poll e (requests w) url)"
  shows "poll_loop e url maxAttempts interval attempts w =
         poll_loop e url maxAttempts interval (attempts + 1) (more_trace (poll_round url interval) w)"
proof -
  from sp obtain p where p: "http_poll e (requests w) url = Ok p"
    and c: "\<not> (status p = ''authorized'' \<and> truthy (code p))"
      "status p \<noteq> ''denied''" "status p \<noteq> ''expired''"
    by (auto simp: still_pending_def split: http_result.splits)
  have w: "snd (setTimeout_wait (interval * 1000) (emit (HttpGet url) w))
           = more_trace (poll_round url interval) w"
    by (simp add: setTimeout_wait_def emit_def more_trace_def poll_round_def)
  from c have b: "(status p = ''authorized'' \<and> truthy (code p)) = False"
    "(status p = ''denied'') = False" "(status p = ''expired'') = False"
    by blast+
  show ?thesis
    by (subst poll_loop.simps)
       (simp only: fetch_apply p lt if_True if_False prod.case sum.case http_result.case w b)
qed

lemma poll_loop_authorized:
  assumes "attempts < maxAttempts"
    and "http_poll e (requests w) url = Ok p" and "status p = ''authorized''"
    and "code p = Some K" and "K \<noteq> []"
  shows "poll_loop e url maxAttempts interval attempts w = (Inr K, more_trace [HttpGet url] w)"
  by (subst poll_loop.simps) (simp add: fetch_apply assms truthy_def emit_more_trace)

lemma poll_loop_exhausted:
  "\<not> attempts < maxAttempts \<Longrightarrow>
   poll_loop e url maxAttempts interval attempts w = (Inl timeout_error, w)"
  by (subst poll_loop.simps) (simp add: timeout_error_def)

lemma is_network_poll_round: "filter is_network (poll_round url interval) = [HttpGet url]"
  by (simp add: poll_round_def is_network_def)

lemma poll_loop_timeout:
  "\<forall>j < n. still_pending (http_poll e (requests w + j) url) \<Longrightarrow>
   maxAttempts - attempts = int n \<Longrightarrow>
   poll_loop e url maxAttempts interval attempts w =
     (Inl timeout_error, more_trace (concat (replicate n (poll_round url interval))) w)"
proof (induction n arbitrary: attempts w)
  case 0
  then show ?case by (simp add: poll_loop_exhausted more_trace_Nil)
next
  case (Suc n)
  from Suc.prems have lt: "attempts < maxAttempts" by simp
  from Suc.prems have p0: "still_pending (http_poll e (requests w) url)" by force
  let ?w = "more_trace (poll_round url interval) w"
  have r: "requests ?w = Suc (requests w)"
    by (simp add: requests_more_trace is_network_poll_round)
  have "\<forall>j < n. still_pending (http_poll e (requests ?w + j) url)"
    using Suc.prems(1) by (auto simp: r)
  moreover have "maxAttempts - (attempts + 1) = int n" using Suc.prems(2) by simp
  ultimately have "poll_loop e url maxAttempts interval (attempts + 1) ?w =
     (Inl timeout_error, more_trace (concat (replicate n (poll_round url interval))) ?w)"
    by (rule Suc.IH)
  then show ?case
    by (simp only: poll_loop_pending [OF lt p0] more_trace_more_trace replicate_Suc concat.simps)
qed

text \<open>
  Claim C4. When the server answers pending, pending, authorized with code \<open>K\<close>, the
  poll loop (with a cap of at least three attempts, such as the default 150) polls three
  times, waits one poll interval after each of the first two polls and returns \<open>K\<close>.
  An answer whose status is not authorized-with-a-code, denied or expired makes the loop
  wait one interval and go on with the next attempt. When every answer is of that kind up
  to the attempt cap, the loop polls and waits that many times and throws the time-out
  error; with no cap passed the cap is 150.
\<close>

theorem poll_loop_behaviour:
  "(3 \<le> pick maxAttempts 150
      \<and> http_poll e (requests w) (poll_url ep a) = Ok \<lparr>status = ''pending'', code = None, reason = None\<rparr>
      \<and> http_poll e (requests w + 1) (poll_url ep a) = Ok \<lparr>status = ''pending'', code = None, reason = None\<rparr>
      \<and> http_poll e (requests w + 2) (poll_url ep a) = Ok \<lparr>status = ''authorized'', code = Some K, reason = None\<rparr>
      \<and> K \<noteq> []
    \<longrightarrow> pollAuthorization e ep a maxAttempts interval d w =
          (Inr K, more_trace (poll_round (poll_url ep a) (pick interval 2)
                              @ poll_round (poll_url ep a) (pick interval 2)
                              @ [HttpGet (poll_url ep a)]) w))
   \<and> (attempts < m \<and> still_pending (http_poll e (requests w) url)
    \<longrightarrow> poll_loop e url m i attempts w =
          poll_loop e url m i (attempts + 1) (more_trace (poll_round url i) w))
   \<and> (0 \<le> pick maxAttempts 150
      \<and> (\<forall>j < nat (pick maxAttempts 150). still_pending (http_poll e (requests w + j) (poll_url ep a)))
    \<longrightarrow> pollAuthorization e ep a maxAttempts interval d w =
          (Inl timeout_error,
           more_trace (concat (replicate (nat (pick maxAttempts 150))
                                 (poll_round (poll_url ep a) (pick interval 2)))) w))
   \<and> ((\<forall>j < 150. still_pending (http_poll e (requests w + j) (poll_url ep a)))
    \<longrightarrow> pollAuthorization e ep a None interval d w =
          (Inl timeout_error,
           more_trace (concat (replicate 150 (poll_round (poll_url ep a) (pick interval 2)))) w))"
proof (intro conjI impI)
  let ?u = "poll_url ep a" and ?m = "pick maxAttempts 150" and ?i = "pick interval 2"
  let ?pending = "Ok \<lparr>status = ''pending'', code = None, reason = None\<rparr>"
  assume h: "3 \<le> ?m \<and> http_poll e (requests w) ?u = ?pending
      \<and> http_poll e (requests w + 1) ?u = ?pending
      \<and> http_poll e (requests w + 2) ?u = Ok \<lparr>status = ''authorized'', code = Some K, reason = None\<rparr>
      \<and> K \<noteq> []"
  have sp: "still_pending ?pending" by (simp add: still_pending_def)
  let ?w1 = "more_trace (poll_round ?u ?i) w"
  let ?w2 = "more_trace (poll_round ?u ?i) ?w1"
  have r1: "requests ?w1 = requests w + 1"
    by (simp add: requests_more_trace is_network_poll_round)
  have r2: "requests ?w2 = requests w + 2"
    by (simp add: requests_more_trace is_network_poll_round)
  have s1: "poll_loop e ?u ?m ?i 0 w = poll_loop e ?u ?m ?i (0 + 1) ?w1"
    using h sp by (intro poll_loop_pending) auto
  have s2: "poll_loop e ?u ?m ?i (0 + 1) ?w1 = poll_loop e ?u ?m ?i (0 + 1 + 1) ?w2"
    using h sp by (intro poll_loop_pending) (auto simp: r1)
  have s3: "poll_loop e ?u ?m ?i (0 + 1 + 1) ?w2 = (Inr K, more_trace [HttpGet ?u] ?w2)"
    using h by (intro poll_loop_authorized [where p = "\<lparr>status = ''authorized'', code = Some K, reason = None\<rparr>"])
      (auto simp: r2)
  show "pollAuthorization e ep a maxAttempts interval d w =
          (Inr K, more_trace (poll_round ?u ?i @ poll_round ?u ?i @ [HttpGet ?u]) w)"
    using s1 s2 s3 by (simp add: pollAuthorization_def poll_url_def more_trace_more_trace)
next
  assume "attempts < m \<and> still_pending (http_poll e (requests w) url)"
  then show "poll_loop e url m i attempts w =
          poll_loop e url m i (attempts + 1) (more_trace (poll_round url i) w)"
    using poll_loop_pending by blast
next
  let ?u = "poll_url ep a" and ?m = "pick maxAttempts 150" and ?i = "pick interval 2"
  assume h: "0 \<le> ?m \<and> (\<forall>j < nat ?m. still_pending (http_poll e (requests w + j) ?u))"
  then have "poll_loop e ?u ?m ?i 0 w =
     (Inl timeout_error, more_trace (concat (replicate (nat ?m) (poll_round ?u ?i))) w)"
    by (intro poll_loop_timeout) auto
  then show "pollAuthorization e ep a maxAttempts interval d w =
          (Inl timeout_error, more_trace (concat (replicate (nat ?m) (poll_round ?u ?i))) w)"
    by (simp add: pollAuthorization_def poll_url_def)
next
  let ?u = "poll_url ep a" and ?i = "pick interval 2"
  assume h: "\<forall>j < 150. still_pending (http_poll e (requests w + j) ?u)"
  have "poll_loop e ?u 150 ?i 0 w =
     (Inl timeout_error, more_trace (concat (replicate 150 (poll_round ?u ?i))) w)"
    using h by (intro poll_loop_timeout) auto
  then show "pollAuthorization e ep a None interval d w =
          (Inl timeout_error, more_trace (concat (replicate 150 (poll_round ?u ?i))) w)"
    by (simp add: pollAuthorization_def poll_url_def pick_def)
qed

theorem poll_loop_behaviour_witness:
  "pollAuthorization (poll_env (approve_third ''K1'')) ''https://scp.x.example/v1'' ''r1''
       None None ''x.example'' fresh_world =
     (Inr ''K1'',
      more_trace (poll_round (poll_url ''https://scp.x.example/v1'' ''r1'') 2
                  @ poll_round (poll_url ''https://scp.x.example/v1'' ''r1'') 2
                  @ [HttpGet (poll_url ''https://scp.x.example/v1'' ''r1'')]) fresh_world)
   \<and> still_pending (http_poll (poll_env never_decided) (requests fresh_world)
         (poll_url ''https://scp.x.example/v1'' ''r1''))
   \<and> poll_loop (poll_env never_decided) (poll_url ''https://scp.x.example/v1'' ''r1'') 150 2 0
         fresh_world =
       poll_loop (poll_env never_decided) (poll_url ''https://scp.x.example/v1'' ''r1'') 150 2 (0 + 1)
         (more_trace (poll_round (poll_url ''https://scp.x.example/v1'' ''r1'') 2) fresh_world)
   \<and> pollAuthorization (poll_env never_decided) ''https://scp.x.example/v1'' ''r1''
       None None ''x.example'' fresh_world =
     (Inl timeout_error,
      more_trace (concat (replicate 150
                    (poll_round (poll_url ''https://scp.x.example/v1'' ''r1'') 2))) fresh_world)"
proof -
  let ?ep = "''https://scp.x.example/v1''" and ?a = "''r1''"
  let ?u = "poll_url ?ep ?a"
  note ok = poll_loop_behaviour [of None "poll_env (approve_third ''K1'')" fresh_world ?ep ?a
      "''K1''" None "''x.example''" 0 150 ?u 2]
  note no = poll_loop_behaviour [of None "poll_env never_decided" fresh_world ?ep ?a
      "''K1''" None "''x.example''" 0 150 ?u 2]
  have sp: "still_pending (http_poll (poll_env never_decided) n ?u)" for n
    by (simp add: poll_env_def never_decided_def still_pending_def)
  have h1: "3 \<le> pick None (150::int)
      \<and> http_poll (poll_env (approve_third ''K1'')) (requests fresh_world) ?u
          = Ok \<lparr>status = ''pending'', code = None, reason = None\<rparr>
      \<and> http_poll (poll_env (approve_third ''K1'')) (requests fresh_world + 1) ?u
          = Ok \<lparr>status = ''pending'', code = None, reason = None\<rparr>
      \<and> http_poll (poll_env (approve_third ''K1'')) (requests fresh_world + 2) ?u
          = Ok \<lparr>status = ''authorized'', code = Some ''K1'', reason = None\<rparr>
      \<and> ''K1'' \<noteq> []"
    by (simp add: pick_def poll_env_def approve_third_def requests_def fresh_world_def)
  from ok h1 have c1: "pollAuthorization (poll_env (approve_third ''K1'')) ?ep ?a
       None None ''x.example'' fresh_world =
     (Inr ''K1'', more_trace (poll_round ?u 2 @ poll_round ?u 2 @ [HttpGet ?u]) fresh_world)"
    by (simp add: pick_def)
  from no sp have c2: "poll_loop (poll_env never_decided) ?u 150 2 0 fresh_world =
       poll_loop (poll_env never_decided) ?u 150 2 (0 + 1)
         (more_trace (poll_round ?u 2) fresh_world)"
    by simp
  from no sp have c3: "pollAuthorization (poll_env never_decided) ?ep ?a
       None None ''x.example'' fresh_world =
     (Inl timeout_error, more_trace (concat (replicate 150 (poll_round ?u 2))) fresh_world)"
    by (simp add: pick_def)
  from c1 sp c2 c3 show ?thesis by blast
qed

section \<open>Token management\<close>

lemma getAuthorization_apply: "getAuthorization d w = (Inr (stored w d), w)"
  by (simp add: getAuthorization_def stored_def)

lemma Date_now_apply:
  "Date_now e w = (Inr (clock e (now_calls w)), w\<lparr>now_calls := Suc (now_calls w)\<rparr>)"
  by (simp add: Date_now_def)

lemma snd_decryptToken: "snd (decryptToken e x w) = w"
  by (simp add: decryptToken_def io_bind_def io_return_def io_throw_def createCipheriv_def createDecipheriv_def
      setAuthTag_def decipher_final_def Let_def split: option.splits)

lemma fst_decryptToken_cong:
  "masterKeyCache w = masterKeyCache w' \<Longrightarrow>
   fst (decryptToken e x w) = fst (decryptToken e x w')"
  by (simp add: decryptToken_def io_bind_def io_return_def io_throw_def createCipheriv_def createDecipheriv_def
      setAuthTag_def decipher_final_def Let_def split: option.splits)

lemma decryptToken_eq: "decryptToken e x w = (fst (decryptToken e x w), w)"
  using snd_decryptToken [of e x w] by (metis prod.collapse)

lemma encryptToken_ok:
  assumes k: "masterKeyCache w = Some k" and len: "length k = KEY_LENGTH"
  shows "\<exists>x. encryptToken e T w = (Inr x, w\<lparr>random_calls := Suc (random_calls w)\<rparr>)
           \<and> (\<forall>w'. masterKeyCache w' = Some k \<longrightarrow>
                 decryptToken e x w' = (Inr (toWellFormed T), w'))"
proof -
  define nonce where "nonce = map (random e (random_calls w)) [0..<IV_LENGTH]"
  define c where "c = ctr_xor (keystream e k nonce) (utf8_bytes T)"
  define x where "x = \<lparr>iv = toString_hex nonce, data = toString_hex c,
                        tag = toString_hex (getAuthTag e k nonce c)\<rparr>"
  have enc: "encryptToken e T w = (Inr x, w\<lparr>random_calls := Suc (random_calls w)\<rparr>)"
    using encryptToken_result [OF k len, of e T] by (simp add: x_def c_def nonce_def)
  have fields: "Buffer_from_hex (iv x) = nonce" "Buffer_from_hex (data x) = c"
    "Buffer_from_hex (tag x) = getAuthTag e k nonce c"
    by (simp_all add: x_def Buffer_from_hex_toString_hex)
  have "decryptToken e x w' = (Inr (toWellFormed T), w')" if k': "masterKeyCache w' = Some k" for w'
    using decryptToken_result [OF k' len, of x e]
    by (simp add: fields length_getAuthTag c_def ctr_xor_involution toWellFormed_def)
  with enc show ?thesis by blast
qed

lemma stored_domain: "stored w d = Some a \<Longrightarrow> merchant_domain a = d"
  by (auto simp: stored_def find_Some_iff)

lemma find_map_update:
  assumes "find (\<lambda>r. merchant_domain r = d) rows = Some a"
    and "\<And>r. merchant_domain (f r) = merchant_domain r"
  shows "find (\<lambda>r. merchant_domain r = d)
           (map (\<lambda>r. if merchant_domain r = d then f r else r) rows) = Some (f a)"
  using assms by (induction rows) (auto split: if_splits)

lemma refreshAccessToken_apply:
  "refreshAccessToken e (scp_endpoint a) rt w =
     (case refresh_answer e w a rt of
        Throws err \<Rightarrow> Inl err
      | NotOk st txt description \<Rightarrow>
          Inl (Error None (or_else description (''Token refresh failed: '' @ show_nat st @ '' '' @ txt)))
      | Ok tr \<Rightarrow> Inr tr,
      more_trace [refresh_request a rt] w)"
  by (simp add: refreshAccessToken_def refresh_answer_def refresh_request_def fetch_apply
      io_bind_def io_throw_def io_return_def emit_more_trace Let_def split: http_result.splits)

lemma masterKeyCache_more_trace: "masterKeyCache (more_trace evs w) = masterKeyCache w"
  by (simp add: more_trace_def)

lemma refreshTokenIfNeeded_ok:
  assumes k: "masterKeyCache w = Some k" and len: "length k = KEY_LENGTH"
    and rt: "decrypts_to e w (refresh_token_encrypted a) rt"
    and ans: "refresh_answer e w a rt = Ok tr"
  shows "\<exists>x1 x2. refreshTokenIfNeeded e a w =
           (Inr (),
            w\<lparr>merchant_authorizations :=
                 map (\<lambda>r. if merchant_domain r = merchant_domain a
                           then refreshed r x1 x2 (clock e (now_calls w) + expires_in tr * 1000)
                                  (clock e (now_calls w + 1))
                           else r) (merchant_authorizations w),
              now_calls := now_calls w + 2,
              random_calls := random_calls w + 2,
              trace := trace w @ [refresh_request a rt]\<rparr>)
         \<and> (\<forall>w'. masterKeyCache w' = Some k \<longrightarrow> decryptToken e x1 w' = (Inr (toWellFormed (access_token tr)), w'))
         \<and> (\<forall>w'. masterKeyCache w' = Some k \<longrightarrow> decryptToken e x2 w' = (Inr (toWellFormed (refresh_token tr)), w'))"
proof -
  let ?w1 = "more_trace [refresh_request a rt] w"
  have dec: "decryptToken e (refresh_token_encrypted a) w = (Inr rt, w)"
    using rt decryptToken_eq [of e "refresh_token_encrypted a" w] by (simp add: decrypts_to_def)
  have k1: "masterKeyCache ?w1 = Some k" using k by (simp add: more_trace_def)
  from encryptToken_ok [OF k1 len, of e "access_token tr"] obtain x1 where
    e1: "encryptToken e (access_token tr) ?w1 = (Inr x1, ?w1\<lparr>random_calls := Suc (random_calls ?w1)\<rparr>)"
    and d1: "\<forall>w'. masterKeyCache w' = Some k \<longrightarrow> decryptToken e x1 w' = (Inr (toWellFormed (access_token tr)), w')"
    by blast
  let ?w2 = "?w1\<lparr>random_calls := Suc (random_calls ?w1)\<rparr>"
  have k2: "masterKeyCache ?w2 = Some k" using k by (simp add: more_trace_def)
  from encryptToken_ok [OF k2 len, of e "refresh_token tr"] obtain x2 where
    e2: "encryptToken e (refresh_token tr) ?w2 = (Inr x2, ?w2\<lparr>random_calls := Suc (random_calls ?w2)\<rparr>)"
    and d2: "\<forall>w'. masterKeyCache w' = Some k \<longrightarrow> decryptToken e x2 w' = (Inr (toWellFormed (refresh_token tr)), w')"
    by blast
  have "refreshTokenIfNeeded e a w =
           (Inr (),
            w\<lparr>merchant_authorizations :=
                 map (\<lambda>r. if merchant_domain r = merchant_domain a
                           then refreshed r x1 x2 (clock e (now_calls w) + expires_in tr * 1000)
                                  (clock e (now_calls w + 1))
                           else r) (merchant_authorizations w),
              now_calls := now_calls w + 2,
              random_calls := random_calls w + 2,
              trace := trace w @ [refresh_request a rt]\<rparr>)"
    apply (simp add: refreshTokenIfNeeded_def io_bind_def io_catch_def dec
        refreshAccessToken_apply ans e1 e2 Date_now_apply updateAuthorizationTokens_def Let_def)
    apply (simp add: refreshed_def more_trace_def)
    done
  with d1 d2 show ?thesis by blast
qed

lemma refreshTokenIfNeeded_failed:
  assumes rt: "decrypts_to e w (refresh_token_encrypted a) rt"
    and ans: "fst (refreshAccessToken e (scp_endpoint a) rt w) = Inl err"
  shows "refreshTokenIfNeeded e a w =
           (Inl (refresh_failed (merchant_domain a) err), more_trace [refresh_request a rt] w)"
proof -
  have dec: "decryptToken e (refresh_token_encrypted a) w = (Inr rt, w)"
    using rt decryptToken_eq [of e "refresh_token_encrypted a" w] by (simp add: decrypts_to_def)
  have "refreshAccessToken e (scp_endpoint a) rt w = (Inl err, more_trace [refresh_request a rt] w)"
    using ans by (simp add: refreshAccessToken_apply)
  then show ?thesis
    by (simp add: refreshTokenIfNeeded_def io_bind_def io_catch_def dec io_throw_def
        refresh_failed_def)
qed

lemma getValidAccessToken_valid:
  assumes a: "stored w d = Some a"
    and v: "\<not> expires_at a - clock e (now_calls w) < TOKEN_REFRESH_THRESHOLD"
  shows "getValidAccessToken e d w =
           (fst (decryptToken e (access_token_encrypted a) w), w\<lparr>now_calls := Suc (now_calls w)\<rparr>)"
proof -
  let ?w1 = "w\<lparr>now_calls := Suc (now_calls w)\<rparr>"
  have "decryptToken e (access_token_encrypted a) ?w1 =
          (fst (decryptToken e (access_token_encrypted a) w), ?w1)"
    using decryptToken_eq [of e "access_token_encrypted a" ?w1]
      fst_decryptToken_cong [of ?w1 w e "access_token_encrypted a"] by simp
  then show ?thesis
    using v by (simp add: getValidAccessToken_def io_bind_def getAuthorization_apply a
        Date_now_apply Let_def)
qed

lemma getValidAccessToken_refresh:
  assumes a: "stored w d = Some a"
    and v: "expires_at a - clock e (now_calls w) < TOKEN_REFRESH_THRESHOLD"
  shows "getValidAccessToken e d w =
           (case refreshTokenIfNeeded e a (w\<lparr>now_calls := Suc (now_calls w)\<rparr>) of
              (Inl err, w') \<Rightarrow> (Inl err, w')
            | (Inr u, w') \<Rightarrow>
                (case stored w' d of
                   None \<Rightarrow> (Inl (Error None ''Authorization lost after refresh''), w')
                 | Some updatedAuth \<Rightarrow> decryptToken e (access_token_encrypted updatedAuth) w'))"
  using v
  by (simp add: getValidAccessToken_def io_bind_def getAuthorization_apply a Date_now_apply
      Let_def io_throw_def split: prod.splits sum.splits option.splits)

lemma sealed_decrypts:
  assumes "masterKeyCache w = masterKeyCache ready_world" and "well_formed T"
  shows "decrypts_to e w (sealed e T) T"
proof -
  let ?k = "map (random example_env 1) [0..<KEY_LENGTH]"
  have k: "masterKeyCache ready_world = Some ?k" by (rule ready_world_key)
  have len: "length ?k = KEY_LENGTH" by simp
  from encryptToken_ok [OF k len, of e T] obtain x where
    "encryptToken e T ready_world = (Inr x, ready_world\<lparr>random_calls := Suc (random_calls ready_world)\<rparr>)"
    and d: "\<forall>w'. masterKeyCache w' = Some ?k \<longrightarrow> decryptToken e x w' = (Inr (toWellFormed T), w')"
    by blast
  then have "sealed e T = x" by (simp add: sealed_def)
  with d assms k show ?thesis by (simp add: decrypts_to_def toWellFormed_well_formed)
qed

lemma shop_world_facts:
  "stored (shop_world e x) ''shop.example'' = Some (shop_record e x)"
  "masterKeyCache (shop_world e x) = Some (map (random example_env 1) [0..<KEY_LENGTH])"
  "now_calls (shop_world e x) = 1"
  "trace (shop_world e x) = []"
  "merchant_authorizations (shop_world e x) = [shop_record e x]"
  by (simp_all add: shop_world_def stored_def shop_record_def ready_world_unfold fresh_world_def)

text \<open>
  Claim C1. For a stored authorization record and an initialised master key:
  when the clock reads less than \<open>expires_at - 300000\<close>, \<open>getValidAccessToken\<close> returns
  the decryption of the stored access token, reads the clock once and changes nothing
  else; when \<open>expires_at\<close> minus the clock reading is below 300000 (the stored refresh
  token decrypting to \<open>rt\<close> and the server granting the refresh), it sends exactly one
  request, the refresh grant for \<open>rt\<close>, stores the newly encrypted tokens with
  \<open>expires_at\<close> computed from a new clock reading and the granted lifetime, and returns
  the decryption of the new stored access token, which is the new access token as it is
  after encoding with \<open>'utf8'\<close> and decoding again: the new access token itself when it
  is well formed.
\<close>

theorem valid_access_token:
  assumes a: "stored w d = Some a"
    and k: "masterKeyCache w = Some k" and len: "length k = KEY_LENGTH"
  shows "(clock e (now_calls w) < expires_at a - 300000 \<longrightarrow>
            getValidAccessToken e d w =
              (fst (decryptToken e (access_token_encrypted a) w),
               w\<lparr>now_calls := Suc (now_calls w)\<rparr>)
            \<and> (decrypts_to e w (access_token_encrypted a) T \<longrightarrow>
                 fst (getValidAccessToken e d w) = Inr T))
       \<and> (expires_at a - clock e (now_calls w) < 300000
            \<and> decrypts_to e w (refresh_token_encrypted a) rt
            \<and> refresh_answer e w a rt = Ok tr \<longrightarrow>
            (\<exists>x1 x2 w'. getValidAccessToken e d w = (Inr (toWellFormed (access_token tr)), w')
               \<and> trace w' = trace w @ [refresh_request a rt]
               \<and> stored w' d =
                   Some (refreshed a x1 x2 (clock e (now_calls w + 1) + expires_in tr * 1000)
                           (clock e (now_calls w + 2)))
               \<and> decrypts_to e w' x1 (toWellFormed (access_token tr))
               \<and> decrypts_to e w' x2 (toWellFormed (refresh_token tr))
               \<and> (well_formed (access_token tr) \<longrightarrow>
                     fst (getValidAccessToken e d w) = Inr (access_token tr))))"
proof (intro conjI impI)
  assume "clock e (now_calls w) < expires_at a - 300000"
  then have v: "\<not> expires_at a - clock e (now_calls w) < TOKEN_REFRESH_THRESHOLD"
    by (simp add: TOKEN_REFRESH_THRESHOLD_def)
  from getValidAccessToken_valid [OF a v]
  show g: "getValidAccessToken e d w =
      (fst (decryptToken e (access_token_encrypted a) w), w\<lparr>now_calls := Suc (now_calls w)\<rparr>)" .
  assume "decrypts_to e w (access_token_encrypted a) T"
  with g show "fst (getValidAccessToken e d w) = Inr T" by (simp add: decrypts_to_def)
next
  assume h: "expires_at a - clock e (now_calls w) < 300000
            \<and> decrypts_to e w (refresh_token_encrypted a) rt
            \<and> refresh_answer e w a rt = Ok tr"
  let ?w1 = "w\<lparr>now_calls := Suc (now_calls w)\<rparr>"
  from h have v: "expires_at a - clock e (now_calls w) < TOKEN_REFRESH_THRESHOLD"
    by (simp add: TOKEN_REFRESH_THRESHOLD_def)
  have k1: "masterKeyCache ?w1 = Some k" using k by simp
  have rt1: "decrypts_to e ?w1 (refresh_token_encrypted a) rt"
    using h fst_decryptToken_cong [of ?w1 w e "refresh_token_encrypted a"]
    by (simp add: decrypts_to_def)
  have ans1: "refresh_answer e ?w1 a rt = Ok tr"
    using h by (simp add: refresh_answer_def requests_def)
  from refreshTokenIfNeeded_ok [OF k1 len rt1 ans1] obtain x1 x2 where
    r: "refreshTokenIfNeeded e a ?w1 =
           (Inr (),
            ?w1\<lparr>merchant_authorizations :=
                 map (\<lambda>r. if merchant_domain r = merchant_domain a
                           then refreshed r x1 x2 (clock e (now_calls ?w1) + expires_in tr * 1000)
                                  (clock e (now_calls ?w1 + 1))
                           else r) (merchant_authorizations ?w1),
              now_calls := now_calls ?w1 + 2,
              random_calls := random_calls ?w1 + 2,
              trace := trace ?w1 @ [refresh_request a rt]\<rparr>)"
    and d1: "\<forall>w'. masterKeyCache w' = Some k \<longrightarrow> decryptToken e x1 w' = (Inr (toWellFormed (access_token tr)), w')"
    and d2: "\<forall>w'. masterKeyCache w' = Some k \<longrightarrow> decryptToken e x2 w' = (Inr (toWellFormed (refresh_token tr)), w')"
    by blast
  define w' where "w' =
            w\<lparr>merchant_authorizations :=
                 map (\<lambda>r. if merchant_domain r = d
                           then refreshed r x1 x2 (clock e (now_calls w + 1) + expires_in tr * 1000)
                                  (clock e (now_calls w + 2))
                           else r) (merchant_authorizations w),
              now_calls := now_calls w + 3,
              random_calls := random_calls w + 2,
              trace := trace w @ [refresh_request a rt]\<rparr>"
  have dom: "merchant_domain a = d" using a by (rule stored_domain)
  have r': "refreshTokenIfNeeded e a ?w1 = (Inr (), w')"
    by (simp add: r w'_def dom cong: if_cong)
  have st: "stored w' d =
      Some (refreshed a x1 x2 (clock e (now_calls w + 1) + expires_in tr * 1000)
              (clock e (now_calls w + 2)))"
    using a find_map_update [of d "merchant_authorizations w" a
        "\<lambda>r. refreshed r x1 x2 (clock e (now_calls w + 1) + expires_in tr * 1000)
                (clock e (now_calls w + 2))"]
    by (simp add: w'_def stored_def refreshed_def)
  have k': "masterKeyCache w' = Some k" using k by (simp add: w'_def)
  have acc: "access_token_encrypted (refreshed a x1 x2 u v) = x1" for u v
    by (simp add: refreshed_def)
  have res: "getValidAccessToken e d w = (Inr (toWellFormed (access_token tr)), w')"
    using getValidAccessToken_refresh [OF a v, of ] r' d1 k'
    by (simp add: st acc)
  have tr': "trace w' = trace w @ [refresh_request a rt]" by (simp add: w'_def)
  from res have wf: "well_formed (access_token tr) \<longrightarrow>
      fst (getValidAccessToken e d w) = Inr (access_token tr)"
    by (simp add: toWellFormed_well_formed)
  from d1 d2 k' have "decrypts_to e w' x1 (toWellFormed (access_token tr))"
    "decrypts_to e w' x2 (toWellFormed (refresh_token tr))"
    by (simp_all add: decrypts_to_def)
  with res tr' st wf
  show "\<exists>x1 x2 w'. getValidAccessToken e d w = (Inr (toWellFormed (access_token tr)), w')
               \<and> trace w' = trace w @ [refresh_request a rt]
               \<and> stored w' d =
                   Some (refreshed a x1 x2 (clock e (now_calls w + 1) + expires_in tr * 1000)
                           (clock e (now_calls w + 2)))
               \<and> decrypts_to e w' x1 (toWellFormed (access_token tr))
               \<and> decrypts_to e w' x2 (toWellFormed (refresh_token tr))
               \<and> (well_formed (access_token tr) \<longrightarrow>
                     fst (getValidAccessToken e d w) = Inr (access_token tr))"
    by blast
qed

lemma token_env_clock: "clock (token_env r) n = 1700000000000 + int n"
  by (simp add: token_env_def example_env_def)

lemma shop_refresh_answer:
  "refresh_answer (token_env r) (shop_world e x) (shop_record e x) rt = r"
  by (simp add: refresh_answer_def token_env_def)

theorem valid_access_token_witness:
  "stored (shop_world (token_env (Ok new_tokens)) 1700000400000) ''shop.example''
     = Some (shop_record (token_env (Ok new_tokens)) 1700000400000)
   \<and> clock (token_env (Ok new_tokens)) (now_calls (shop_world (token_env (Ok new_tokens)) 1700000400000))
       < 1700000400000 - 300000
   \<and> fst (getValidAccessToken (token_env (Ok new_tokens)) ''shop.example''
            (shop_world (token_env (Ok new_tokens)) 1700000400000)) = Inr ''access-1''
   \<and> snd (getValidAccessToken (token_env (Ok new_tokens)) ''shop.example''
            (shop_world (token_env (Ok new_tokens)) 1700000400000))
       = (shop_world (token_env (Ok new_tokens)) 1700000400000)\<lparr>now_calls := 2\<rparr>
   \<and> 1700000100000 - clock (token_env (Ok new_tokens))
         (now_calls (shop_world (token_env (Ok new_tokens)) 1700000100000)) < 300000
   \<and> well_formed (access_token new_tokens)
   \<and> fst (getValidAccessToken (token_env (Ok new_tokens)) ''shop.example''
            (shop_world (token_env (Ok new_tokens)) 1700000100000)) = Inr ''access-2''
   \<and> trace (snd (getValidAccessToken (token_env (Ok new_tokens)) ''shop.example''
            (shop_world (token_env (Ok new_tokens)) 1700000100000)))
       = [refresh_request (shop_record (token_env (Ok new_tokens)) 1700000100000) ''refresh-1'']
   \<and> map_option expires_at
         (stored (snd (getValidAccessToken (token_env (Ok new_tokens)) ''shop.example''
            (shop_world (token_env (Ok new_tokens)) 1700000100000))) ''shop.example'')
       = Some (1700000000002 + 3600 * 1000)"
proof -
  let ?e = "token_env (Ok new_tokens)"
  let ?k = "map (random example_env 1) [0..<KEY_LENGTH]"
  let ?v = "shop_world ?e 1700000400000" and ?r = "shop_world ?e 1700000100000"
  have len: "length ?k = KEY_LENGTH" by simp
  note tv = valid_access_token [OF shop_world_facts(1) shop_world_facts(2) len,
      where e = ?e and x1 = 1700000400000 and e1 = ?e and T = "''access-1''"
        and rt = "''refresh-1''" and tr = new_tokens]
  note tr = valid_access_token [OF shop_world_facts(1) shop_world_facts(2) len,
      where e = ?e and x1 = 1700000100000 and e1 = ?e and T = "''access-1''"
        and rt = "''refresh-1''" and tr = new_tokens]
  have c1: "clock ?e (now_calls ?v) < 1700000400000 - 300000"
    by (simp add: token_env_clock shop_world_facts)
  have c1': "clock ?e (now_calls ?v) < expires_at (shop_record ?e 1700000400000) - 300000"
    by (simp add: token_env_clock shop_world_facts shop_record_def)
  have d1: "decrypts_to ?e ?v (access_token_encrypted (shop_record ?e 1700000400000)) ''access-1''"
    using sealed_decrypts [where w = ?v and e = ?e and T = "''access-1''"]
    by (simp add: shop_record_def shop_world_def well_formed_examples)
  from tv c1' d1 have v1: "fst (getValidAccessToken ?e ''shop.example'' ?v) = Inr ''access-1''"
    by blast
  from tv c1' have v2: "snd (getValidAccessToken ?e ''shop.example'' ?v) = ?v\<lparr>now_calls := 2\<rparr>"
    by (simp add: shop_world_facts)
  have c2: "1700000100000 - clock ?e (now_calls ?r) < 300000"
    by (simp add: token_env_clock shop_world_facts)
  have c2': "expires_at (shop_record ?e 1700000100000) - clock ?e (now_calls ?r) < 300000"
    by (simp add: token_env_clock shop_world_facts shop_record_def)
  have d2: "decrypts_to ?e ?r (refresh_token_encrypted (shop_record ?e 1700000100000)) ''refresh-1''"
    using sealed_decrypts [where w = ?r and e = ?e and T = "''refresh-1''"]
    by (simp add: shop_record_def shop_world_def well_formed_examples)
  have a2: "refresh_answer ?e ?r (shop_record ?e 1700000100000) ''refresh-1'' = Ok new_tokens"
    by (rule shop_refresh_answer)
  have wf2: "well_formed (access_token new_tokens)"
    by (simp add: new_tokens_def well_formed_examples)
  from tr c2' d2 a2 obtain x1 x2 w' where
    g: "getValidAccessToken ?e ''shop.example'' ?r = (Inr (toWellFormed (access_token new_tokens)), w')"
    and t: "trace w' = trace ?r @ [refresh_request (shop_record ?e 1700000100000) ''refresh-1'']"
    and s: "stored w' ''shop.example'' =
       Some (refreshed (shop_record ?e 1700000100000) x1 x2
               (clock ?e (now_calls ?r + 1) + expires_in new_tokens * 1000)
               (clock ?e (now_calls ?r + 2)))"
    by blast
  from g wf2 have r1: "fst (getValidAccessToken ?e ''shop.example'' ?r) = Inr ''access-2''"
    by (simp add: toWellFormed_well_formed) (simp add: new_tokens_def)
  from g t have r2: "trace (snd (getValidAccessToken ?e ''shop.example'' ?r))
       = [refresh_request (shop_record ?e 1700000100000) ''refresh-1'']"
    by (simp add: shop_world_facts)
  from g s have r3: "map_option expires_at
         (stored (snd (getValidAccessToken ?e ''shop.example'' ?r)) ''shop.example'')
       = Some (1700000000002 + 3600 * 1000)"
    by (simp add: refreshed_def token_env_clock shop_world_facts new_tokens_def)
  from shop_world_facts(1) c1 v1 v2 c2 wf2 r1 r2 r3 show ?thesis by blast
qed

text \<open>
  Claim C8, as amended. When the refresh call made inside \<open>getValidAccessToken\<close> fails
  with an error \<open>err\<close>, \<open>getValidAccessToken\<close> throws a new error whose message is
  \<open>Failed to refresh token for <domain>: \<close> followed by the message of \<open>err\<close>; no
  token is returned, exactly one refresh request was sent, and the table of
  authorization records is as it was.
\<close>

theorem refresh_failure_surfaced:
  assumes a: "stored w d = Some a"
    and v: "expires_at a - clock e (now_calls w) < 300000"
    and rt: "decrypts_to e w (refresh_token_encrypted a) rt"
    and fail: "fst (refreshAccessToken e (scp_endpoint a) rt (w\<lparr>now_calls := Suc (now_calls w)\<rparr>))
                 = Inl err"
  shows "getValidAccessToken e d w =
           (Inl (refresh_failed d err),
            w\<lparr>now_calls := Suc (now_calls w), trace := trace w @ [refresh_request a rt]\<rparr>)
         \<and> merchant_authorizations (snd (getValidAccessToken e d w)) = merchant_authorizations w"
proof -
  let ?w1 = "w\<lparr>now_calls := Suc (now_calls w)\<rparr>"
  from v have v': "expires_at a - clock e (now_calls w) < TOKEN_REFRESH_THRESHOLD"
    by (simp add: TOKEN_REFRESH_THRESHOLD_def)
  have rt1: "decrypts_to e ?w1 (refresh_token_encrypted a) rt"
    using rt fst_decryptToken_cong [of ?w1 w e "refresh_token_encrypted a"]
    by (simp add: decrypts_to_def)
  have dom: "merchant_domain a = d" using a by (rule stored_domain)
  from refreshTokenIfNeeded_failed [OF rt1 fail]
  have "refreshTokenIfNeeded e a ?w1 =
      (Inl (refresh_failed d err), more_trace [refresh_request a rt] ?w1)"
    by (simp add: dom)
  with getValidAccessToken_refresh [OF a v'] show ?thesis
    by (simp add: more_trace_def)
qed

lemma refusing_refresh:
  "fst (refreshAccessToken refusing_env (scp_endpoint (shop_record refusing_env x)) rt w)
     = Inl (Error None ''invalid_grant'')"
  by (simp add: refreshAccessToken_apply refresh_answer_def refusing_env_def token_env_def
      or_else_def)

theorem refresh_failure_surfaced_witness:
  "stored (shop_world refusing_env 1700000100000) ''shop.example''
     = Some (shop_record refusing_env 1700000100000)
   \<and> expires_at (shop_record refusing_env 1700000100000)
       - clock refusing_env (now_calls (shop_world refusing_env 1700000100000)) < 300000
   \<and> decrypts_to refusing_env (shop_world refusing_env 1700000100000)
        (refresh_token_encrypted (shop_record refusing_env 1700000100000)) ''refresh-1''
   \<and> fst (refreshAccessToken refusing_env (scp_endpoint (shop_record refusing_env 1700000100000))
        ''refresh-1''
        ((shop_world refusing_env 1700000100000)
           \<lparr>now_calls := Suc (now_calls (shop_world refusing_env 1700000100000))\<rparr>))
       = Inl (Error None ''invalid_grant'')
   \<and> getValidAccessToken refusing_env ''shop.example'' (shop_world refusing_env 1700000100000) =
       (Inl (refresh_failed ''shop.example'' (Error None ''invalid_grant'')),
        (shop_world refusing_env 1700000100000)
          \<lparr>now_calls := Suc (now_calls (shop_world refusing_env 1700000100000)),
            trace := trace (shop_world refusing_env 1700000100000)
                     @ [refresh_request (shop_record refusing_env 1700000100000) ''refresh-1'']\<rparr>)"
proof -
  let ?w = "shop_world refusing_env 1700000100000"
  let ?a = "shop_record refusing_env 1700000100000"
  have c: "expires_at ?a - clock refusing_env (now_calls ?w) < 300000"
    by (simp add: refusing_env_def token_env_clock shop_world_facts shop_record_def)
  have d: "decrypts_to refusing_env ?w (refresh_token_encrypted ?a) ''refresh-1''"
    using sealed_decrypts [where w = ?w and e = refusing_env and T = "''refresh-1''"]
    by (simp add: shop_record_def shop_world_def well_formed_examples)
  note f = refusing_refresh [where x = 1700000100000 and rt = "''refresh-1''"
      and w = "?w\<lparr>now_calls := Suc (now_calls ?w)\<rparr>"]
  from refresh_failure_surfaced [OF shop_world_facts(1) c d f] shop_world_facts(1) c d f
  show ?thesis by simp
qed

theorem refresh_failure_rewrapped:
  "fst (refreshAccessToken refusing_env (scp_endpoint (shop_record refusing_env 1700000100000))
        ''refresh-1''
        ((shop_world refusing_env 1700000100000)
           \<lparr>now_calls := Suc (now_calls (shop_world refusing_env 1700000100000))\<rparr>))
     = Inl (Error None ''invalid_grant'')
   \<and> fst (getValidAccessToken refusing_env ''shop.example'' (shop_world refusing_env 1700000100000))
     = Inl (Error None ''Failed to refresh token for shop.example: invalid_grant'')
   \<and> fst (getValidAccessToken refusing_env ''shop.example'' (shop_world refusing_env 1700000100000))
     \<noteq> Inl (Error None ''invalid_grant'')"
proof -
  let ?w = "shop_world refusing_env 1700000100000"
  let ?a = "shop_record refusing_env 1700000100000"
  let ?w1 = "?w\<lparr>now_calls := Suc (now_calls ?w)\<rparr>"
  have c: "expires_at ?a - clock refusing_env (now_calls ?w) < TOKEN_REFRESH_THRESHOLD"
    by (simp add: refusing_env_def token_env_clock shop_world_facts shop_record_def
        TOKEN_REFRESH_THRESHOLD_def)
  have d: "decrypts_to refusing_env ?w1 (refresh_token_encrypted ?a) ''refresh-1''"
    using sealed_decrypts [where w = ?w1 and e = refusing_env and T = "''refresh-1''"]
    by (simp add: shop_record_def shop_world_def well_formed_examples)
  note f = refusing_refresh [where x = 1700000100000 and rt = "''refresh-1''" and w = ?w1]
  from refreshTokenIfNeeded_failed [OF d f]
  have "fst (refreshTokenIfNeeded refusing_env ?a ?w1)
          = Inl (Error None ''Failed to refresh token for shop.example: invalid_grant'')"
    by (simp add: refresh_failed_def shop_record_def)
  with getValidAccessToken_refresh [OF shop_world_facts(1) c]
  have g: "fst (getValidAccessToken refusing_env ''shop.example'' ?w)
     = Inl (Error None ''Failed to refresh token for shop.example: invalid_grant'')"
    by (simp split: prod.splits)
  from f g show ?thesis by simp
qed

section \<open>Revocation\<close>

lemma other_rows_more_trace: "other_rows d (more_trace evs w) = other_rows d w"
  by (simp add: other_rows_def more_trace_def)

lemma encryptToken_rows:
  "encryptToken e T w = (r, w') \<Longrightarrow> merchant_authorizations w' = merchant_authorizations w"
  by (auto simp: encryptToken_def io_bind_def io_return_def io_throw_def randomBytes_def
      createCipheriv_def Let_def split: option.splits if_splits)

lemma updateAuthorizationTokens_rows:
  assumes "updateAuthorizationTokens e d x1 x2 t w = (q, w')"
  shows "q = Inr ()" and "other_rows d w' = other_rows d w"
proof -
  have "filter (\<lambda>r. merchant_domain r \<noteq> d)
          (map (\<lambda>r. if merchant_domain r = d
                    then r\<lparr>access_token_encrypted := x1, refresh_token_encrypted := x2,
                           expires_at := t, updated_at := n\<rparr>
                    else r) rows)
          = filter (\<lambda>r. merchant_domain r \<noteq> d) rows" for n rows
    by (induction rows) auto
  with assms show "q = Inr ()" and "other_rows d w' = other_rows d w"
    by (auto simp: updateAuthorizationTokens_def io_bind_def Date_now_apply other_rows_def)
qed

lemma refreshTokenIfNeeded_rows:
  "other_rows (merchant_domain a) (snd (refreshTokenIfNeeded e a w)) = other_rows (merchant_domain a) w"
proof -
  let ?d = "merchant_domain a"
  have dec: "decryptToken e (refresh_token_encrypted a) w
               = (fst (decryptToken e (refresh_token_encrypted a) w), w)"
    by (rule decryptToken_eq)
  show ?thesis
  proof (cases "fst (decryptToken e (refresh_token_encrypted a) w)")
    case (Inl err)
    with dec show ?thesis by (simp add: refreshTokenIfNeeded_def io_bind_def)
  next
    case (Inr rt)
    let ?w1 = "more_trace [refresh_request a rt] w"
    have r1: "other_rows ?d ?w1 = other_rows ?d w" by (rule other_rows_more_trace)
    show ?thesis
    proof (cases "refresh_answer e w a rt")
      case (Ok tr)
      obtain q1 w2 where e1: "encryptToken e (access_token tr) ?w1 = (q1, w2)" by force
      obtain q2 w3 where e2: "encryptToken e (refresh_token tr) w2 = (q2, w3)" by force
      have m2: "merchant_authorizations w2 = merchant_authorizations ?w1"
        using e1 by (rule encryptToken_rows)
      have m3: "merchant_authorizations w3 = merchant_authorizations w2"
        using e2 by (rule encryptToken_rows)
      have o3: "other_rows ?d w3 = other_rows ?d w" "other_rows ?d w2 = other_rows ?d w"
        using m2 m3 r1 by (simp_all add: other_rows_def)
      let ?w4 = "w3\<lparr>now_calls := Suc (now_calls w3)\<rparr>"
      obtain q3 w5 where u: "updateAuthorizationTokens e ?d (projr q1) (projr q2)
          (clock e (now_calls w3) + expires_in tr * 1000) ?w4 = (q3, w5)" by force
      have "other_rows ?d ?w4 = other_rows ?d w" using o3 by (simp add: other_rows_def)
      with updateAuthorizationTokens_rows [OF u] have o5: "q3 = Inr ()" "other_rows ?d w5 = other_rows ?d w"
        by simp_all
      show ?thesis
        using dec Inr Ok e1 e2 o3 r1 u o5
        by (cases q1; cases q2)
           (simp_all add: refreshTokenIfNeeded_def io_bind_def io_catch_def io_throw_def
              refreshAccessToken_apply Date_now_apply Let_def)
    qed (use dec Inr r1 in \<open>simp_all add: refreshTokenIfNeeded_def io_bind_def io_catch_def
              io_throw_def refreshAccessToken_apply\<close>)
  qed
qed

lemma getValidAccessToken_rows:
  "other_rows d (snd (getValidAccessToken e d w)) = other_rows d w"
proof (cases "stored w d")
  case None
  then show ?thesis
    by (simp add: getValidAccessToken_def io_bind_def getAuthorization_apply io_throw_def)
next
  case (Some a)
  let ?w1 = "w\<lparr>now_calls := Suc (now_calls w)\<rparr>"
  have dom: "merchant_domain a = d" using Some by (rule stored_domain)
  have o1: "other_rows d ?w1 = other_rows d w" by (simp add: other_rows_def)
  show ?thesis
  proof (cases "expires_at a - clock e (now_calls w) < TOKEN_REFRESH_THRESHOLD")
    case False
    from getValidAccessToken_valid [OF Some False] o1 show ?thesis by simp
  next
    case True
    obtain q w2 where r: "refreshTokenIfNeeded e a ?w1 = (q, w2)" by force
    have o2: "other_rows d w2 = other_rows d w"
      using refreshTokenIfNeeded_rows [of a e ?w1] r o1 dom by simp
    show ?thesis
      using getValidAccessToken_refresh [OF Some True] r o2
      by (cases q) (simp_all add: snd_decryptToken io_throw_def split: option.splits)
  qed
qed

lemma revokeToken_rows:
  "merchant_authorizations (snd (revokeToken e ep t w)) = merchant_authorizations w"
  by (simp add: revokeToken_def fetch_apply io_bind_def io_throw_def io_return_def emit_def
      Let_def split: http_result.splits)

lemma filter_other_rows:
  "other_rows d w' = other_rows d w \<Longrightarrow>
   filter (\<lambda>r. merchant_domain r \<noteq> d) (merchant_authorizations w')
     = filter (\<lambda>r. merchant_domain r \<noteq> d) (merchant_authorizations w)"
  by (simp add: other_rows_def)

lemma handleRevokeAuthorization_present:
  assumes a: "stored w d = Some a"
  shows "fst (handleRevokeAuthorization e d w) = Inr (Revoked d)"
    and "merchant_authorizations (snd (handleRevokeAuthorization e d w))
           = filter (\<lambda>r. merchant_domain r \<noteq> d) (merchant_authorizations w)"
proof -
  obtain q w1 where g: "getValidAccessToken e d w = (q, w1)" by force
  have o1: "other_rows d w1 = other_rows d w"
    using getValidAccessToken_rows [of d e w] g by simp
  define w2 where "w2 = (case q of Inl err \<Rightarrow> w1 | Inr t \<Rightarrow> snd (revokeToken e (scp_endpoint a) t w1))"
  have o2: "other_rows d w2 = other_rows d w"
    using o1 by (cases q) (simp_all add: w2_def other_rows_def revokeToken_rows)
  have c: "io_catch (io_bind (getValidAccessToken e d) (\<lambda>accessToken. revokeToken e (scp_endpoint a) accessToken))
             (\<lambda>err. io_return ()) w = (Inr (), w2)"
    using g by (cases q; cases "revokeToken e (scp_endpoint a) (projr q) w1";
        cases "fst (revokeToken e (scp_endpoint a) (projr q) w1)")
      (simp_all add: io_catch_def io_bind_def io_return_def w2_def)
  have h: "handleRevokeAuthorization e d w =
      (Inr (Revoked d),
       w2\<lparr>merchant_authorizations :=
             filter (\<lambda>r. merchant_domain r \<noteq> d) (merchant_authorizations w2)\<rparr>)"
    using c
    by (simp add: handleRevokeAuthorization_def io_bind_def getAuthorization_apply a
        deleteAuthorization_def io_return_def)
  show "fst (handleRevokeAuthorization e d w) = Inr (Revoked d)" by (simp add: h)
  show "merchant_authorizations (snd (handleRevokeAuthorization e d w))
           = filter (\<lambda>r. merchant_domain r \<noteq> d) (merchant_authorizations w)"
    using filter_other_rows [OF o2] by (simp add: h)
qed

lemma stored_after_delete:
  "merchant_authorizations w' = filter (\<lambda>r. merchant_domain r \<noteq> d) rows \<Longrightarrow> stored w' d = None"
  by (simp add: stored_def find_None_iff)

text \<open>
  Claim C7. When a record is stored for the domain, \<open>handleRevokeAuthorization\<close>
  returns the revoked message and leaves the table without any record of that domain
  (the records of other domains are as they were), in every environment: whether
  obtaining the access token or the remote revocation call fails or not. When no record
  is stored for the domain it throws \<open>No authorization found for <domain>\<close> and
  changes nothing.
\<close>

theorem revoke_deletes_locally:
  "(stored w d = Some a \<longrightarrow>
      fst (handleRevokeAuthorization e d w) = Inr (Revoked d)
      \<and> stored (snd (handleRevokeAuthorization e d w)) d = None
      \<and> merchant_authorizations (snd (handleRevokeAuthorization e d w))
          = filter (\<lambda>r. merchant_domain r \<noteq> d) (merchant_authorizations w))
   \<and> (stored w d = None \<longrightarrow>
      handleRevokeAuthorization e d w = (Inl (Error None (''No authorization found for '' @ d)), w))"
proof (intro conjI impI)
  assume a: "stored w d = Some a"
  from handleRevokeAuthorization_present [OF a]
  show "fst (handleRevokeAuthorization e d w) = Inr (Revoked d)"
    and m: "merchant_authorizations (snd (handleRevokeAuthorization e d w))
          = filter (\<lambda>r. merchant_domain r \<noteq> d) (merchant_authorizations w)"
    by simp_all
  from m show "stored (snd (handleRevokeAuthorization e d w)) d = None"
    by (rule stored_after_delete)
next
  assume "stored w d = None"
  then show "handleRevokeAuthorization e d w =
      (Inl (Error None (''No authorization found for '' @ d)), w)"
    by (simp add: handleRevokeAuthorization_def io_bind_def getAuthorization_apply io_throw_def)
qed

lemma example_revoke_fails:
  "fst (revokeToken example_env ep t w) = Inl (Error None ''fetch failed'')"
  by (simp add: revokeToken_def fetch_apply io_bind_def io_throw_def example_env_def Let_def)

lemma example_refresh_fails:
  "fst (getValidAccessToken example_env ''shop.example'' (shop_world example_env 1700000100000))
     = Inl (refresh_failed ''shop.example'' (Error None ''fetch failed''))"
proof -
  let ?w = "shop_world example_env 1700000100000"
  let ?a = "shop_record example_env 1700000100000"
  let ?w1 = "?w\<lparr>now_calls := Suc (now_calls ?w)\<rparr>"
  have c: "expires_at ?a - clock example_env (now_calls ?w) < TOKEN_REFRESH_THRESHOLD"
    by (simp add: example_env_def shop_world_facts shop_record_def TOKEN_REFRESH_THRESHOLD_def)
  have d: "decrypts_to example_env ?w1 (refresh_token_encrypted ?a) ''refresh-1''"
    using sealed_decrypts [where w = ?w1 and e = example_env and T = "''refresh-1''"]
    by (simp add: shop_record_def shop_world_def well_formed_examples)
  have f: "fst (refreshAccessToken example_env (scp_endpoint ?a) ''refresh-1'' ?w1)
             = Inl (Error None ''fetch failed'')"
    by (simp add: refreshAccessToken_apply refresh_answer_def example_env_def)
  from refreshTokenIfNeeded_failed [OF d f]
  have "fst (refreshTokenIfNeeded example_env ?a ?w1)
          = Inl (refresh_failed ''shop.example'' (Error None ''fetch failed''))"
    by (simp add: shop_record_def)
  with getValidAccessToken_refresh [OF shop_world_facts(1) c] show ?thesis
    by (simp split: prod.splits)
qed

theorem revoke_deletes_locally_witness:
  "stored (shop_world example_env 1700000400000) ''shop.example''
     = Some (shop_record example_env 1700000400000)
   \<and> fst (revokeToken example_env ''https://scp.shop.example/v1'' ''access-1''
        (shop_world example_env 1700000400000)) = Inl (Error None ''fetch failed'')
   \<and> fst (handleRevokeAuthorization example_env ''shop.example''
        (shop_world example_env 1700000400000)) = Inr (Revoked ''shop.example'')
   \<and> stored (snd (handleRevokeAuthorization example_env ''shop.example''
        (shop_world example_env 1700000400000))) ''shop.example'' = None
   \<and> merchant_authorizations (snd (handleRevokeAuthorization example_env ''shop.example''
        (shop_world example_env 1700000400000))) = []
   \<and> stored (shop_world example_env 1700000100000) ''shop.example''
     = Some (shop_record example_env 1700000100000)
   \<and> fst (getValidAccessToken example_env ''shop.example'' (shop_world example_env 1700000100000))
     = Inl (refresh_failed ''shop.example'' (Error None ''fetch failed''))
   \<and> fst (handleRevokeAuthorization example_env ''shop.example''
        (shop_world example_env 1700000100000)) = Inr (Revoked ''shop.example'')
   \<and> merchant_authorizations (snd (handleRevokeAuthorization example_env ''shop.example''
        (shop_world example_env 1700000100000))) = []
   \<and> stored fresh_world ''shop.example'' = None
   \<and> handleRevokeAuthorization example_env ''shop.example'' fresh_world
       = (Inl (Error None ''No authorization found for shop.example''), fresh_world)"
proof -
  let ?w = "shop_world example_env 1700000400000"
  let ?v = "shop_world example_env 1700000100000"
  note t1 = revoke_deletes_locally [where w = ?w and d = "''shop.example''"
      and a = "shop_record example_env 1700000400000" and e = example_env]
  note t2 = revoke_deletes_locally [where w = fresh_world and d = "''shop.example''"
      and a = "shop_record example_env 1700000400000" and e = example_env]
  note t3 = revoke_deletes_locally [where w = ?v and d = "''shop.example''"
      and a = "shop_record example_env 1700000100000" and e = example_env]
  have s1: "stored ?w ''shop.example'' = Some (shop_record example_env 1700000400000)"
    by (rule shop_world_facts)
  have s3: "stored ?v ''shop.example'' = Some (shop_record example_env 1700000100000)"
    by (rule shop_world_facts)
  have s2: "stored fresh_world ''shop.example'' = None"
    by (simp add: stored_def fresh_world_def)
  have f: "filter (\<lambda>r. merchant_domain r \<noteq> ''shop.example'') (merchant_authorizations ?w) = []"
    "filter (\<lambda>r. merchant_domain r \<noteq> ''shop.example'') (merchant_authorizations ?v) = []"
    by (simp_all add: shop_world_facts shop_record_def)
  from t1 s1 f have r1: "fst (handleRevokeAuthorization example_env ''shop.example'' ?w)
       = Inr (Revoked ''shop.example'')"
    "stored (snd (handleRevokeAuthorization example_env ''shop.example'' ?w)) ''shop.example'' = None"
    "merchant_authorizations (snd (handleRevokeAuthorization example_env ''shop.example'' ?w)) = []"
    by simp_all
  from t3 s3 f have r3: "fst (handleRevokeAuthorization example_env ''shop.example'' ?v)
       = Inr (Revoked ''shop.example'')"
    "merchant_authorizations (snd (handleRevokeAuthorization example_env ''shop.example'' ?v)) = []"
    by simp_all
  from t2 s2 have r2: "handleRevokeAuthorization example_env ''shop.example'' fresh_world
       = (Inl (Error None ''No authorization found for shop.example''), fresh_world)"
    by simp
  from s1 example_revoke_fails r1 s3 example_refresh_fails r3 s2 r2 show ?thesis by blast
qed

section \<open>Re-authorization\<close>

lemma scopes_match_iff:
  "(card (set xs) = card (set ys) \<and> (\<forall>s \<in> set ys. s \<in> set xs)) = (set xs = set ys)"
proof
  assume h: "card (set xs) = card (set ys) \<and> (\<forall>s \<in> set ys. s \<in> set xs)"
  then have "set ys \<subseteq> set xs" by blast
  moreover have "finite (set xs)" by simp
  ultimately have "set ys = set xs" using h by (simp add: card_subset_eq)
  then show "set xs = set ys" by simp
next
  assume "set xs = set ys"
  then show "card (set xs) = card (set ys) \<and> (\<forall>s \<in> set ys. s \<in> set xs)" by simp
qed

lemma existing_check_same:
  "customer_email a = em \<Longrightarrow> set (scopes a) = set sc \<Longrightarrow>
   existing_check a d em sc = Some (AlreadyAuthorized d (customer_email a) (scopes a))"
  by (simp add: existing_check_def Let_def scopes_match_iff)

lemma existing_check_other_email:
  "customer_email a \<noteq> em \<Longrightarrow>
   existing_check a d em sc = Some (RevokeFirst d (customer_email a) em)"
  by (simp add: existing_check_def Let_def)

lemma handleAuthorize_existing:
  assumes "stored w d = Some a" and "\<not> placeholder_email em"
    and "existing_check a d em sc = Some message"
  shows "handleAuthorize e d em sc w = (Inr message, w)"
  using assms
  by (simp add: handleAuthorize_def placeholder_email_def io_bind_def getAuthorization_apply
      io_return_def)

lemma handleAuthorize_placeholder:
  "placeholder_email em \<Longrightarrow> handleAuthorize e d em sc w = (Inr (InvalidEmail em d), w)"
  by (simp add: handleAuthorize_def placeholder_email_def io_return_def)

text \<open>
  Claim C5, as amended. For a domain with a stored record, authorizing with the stored
  email, an address that does not contain \<open>example\<close>, and with scopes that are, as a
  set, the stored scopes returns the already-authorized message and leaves the world as
  it was: no request is sent and the record is unchanged.
\<close>

theorem reauthorize_same_is_idempotent:
  assumes "stored w d = Some a" and "customer_email a = em" and "set sc = set (scopes a)"
    and "\<not> placeholder_email em"
  shows "handleAuthorize e d em sc w =
           (Inr (AlreadyAuthorized d (customer_email a) (scopes a)), w)"
  using assms handleAuthorize_existing [of w d a em sc _ e] existing_check_same [of a em sc d]
  by simp

text \<open>
  Claim C6, as amended. For a domain with a stored record, authorizing with an email
  that differs from the stored one and does not contain \<open>example\<close> returns the message
  that tells the caller to revoke first and leaves the world as it was: no discovery, no
  flow, no write to the table.
\<close>

theorem reauthorize_other_email_refused:
  assumes "stored w d = Some a" and "customer_email a \<noteq> em" and "\<not> placeholder_email em"
  shows "handleAuthorize e d em sc w = (Inr (RevokeFirst d (customer_email a) em), w)"
  using assms handleAuthorize_existing [of w d a em sc _ e] existing_check_other_email [of a em d sc]
  by simp

lemma not_placeholder_ann: "\<not> placeholder_email ''ann@mail.test''"
  by (simp add: placeholder_email_def endsWith_def startsWith_def)

lemma not_placeholder_eve: "\<not> placeholder_email ''eve@mail.test''"
  by (simp add: placeholder_email_def endsWith_def startsWith_def)

lemma placeholder_bob: "placeholder_email ''bob@example.com''"
  by (simp add: placeholder_email_def endsWith_def)

lemma placeholder_user: "placeholder_email ''user@example.com''"
  by (simp add: placeholder_email_def endsWith_def)

theorem reauthorize_same_is_idempotent_witness:
  "stored (shop_world example_env 1700000400000) ''shop.example''
      = Some (shop_record example_env 1700000400000)
   \<and> customer_email (shop_record example_env 1700000400000) = ''ann@mail.test''
   \<and> set [''loyalty'', ''orders''] = set (scopes (shop_record example_env 1700000400000))
   \<and> \<not> placeholder_email ''ann@mail.test''
   \<and> handleAuthorize example_env ''shop.example'' ''ann@mail.test'' [''loyalty'', ''orders'']
        (shop_world example_env 1700000400000)
       = (Inr (AlreadyAuthorized ''shop.example'' ''ann@mail.test'' [''orders'', ''loyalty'']),
          shop_world example_env 1700000400000)"
proof -
  have e: "customer_email (shop_record example_env 1700000400000) = ''ann@mail.test''"
    by (simp add: shop_record_def)
  have s: "set [''loyalty'', ''orders''] = set (scopes (shop_record example_env 1700000400000))"
    by (auto simp: shop_record_def)
  from reauthorize_same_is_idempotent [OF shop_world_facts(1) e s not_placeholder_ann,
      where e = example_env]
  have "handleAuthorize example_env ''shop.example'' ''ann@mail.test'' [''loyalty'', ''orders'']
        (shop_world example_env 1700000400000)
       = (Inr (AlreadyAuthorized ''shop.example'' ''ann@mail.test'' [''orders'', ''loyalty'']),
          shop_world example_env 1700000400000)"
    by (simp add: shop_record_def)
  with shop_world_facts(1) e s not_placeholder_ann show ?thesis by blast
qed

theorem reauthorize_same_placeholder_email:
  "stored placeholder_world ''shop.example''
      = Some ((shop_record example_env 1700000400000)\<lparr>customer_email := ''bob@example.com''\<rparr>)
   \<and> handleAuthorize example_env ''shop.example'' ''bob@example.com'' [''orders'', ''loyalty'']
        placeholder_world
       = (Inr (InvalidEmail ''bob@example.com'' ''shop.example''), placeholder_world)
   \<and> InvalidEmail ''bob@example.com'' ''shop.example''
       \<noteq> AlreadyAuthorized ''shop.example'' ''bob@example.com'' [''orders'', ''loyalty'']"
  by (simp add: handleAuthorize_placeholder placeholder_bob)
     (simp add: placeholder_world_def stored_def shop_record_def)

theorem reauthorize_other_email_refused_witness:
  "stored (shop_world example_env 1700000400000) ''shop.example''
      = Some (shop_record example_env 1700000400000)
   \<and> customer_email (shop_record example_env 1700000400000) \<noteq> ''eve@mail.test''
   \<and> \<not> placeholder_email ''eve@mail.test''
   \<and> handleAuthorize example_env ''shop.example'' ''eve@mail.test'' [''orders'']
        (shop_world example_env 1700000400000)
       = (Inr (RevokeFirst ''shop.example'' ''ann@mail.test'' ''eve@mail.test''),
          shop_world example_env 1700000400000)"
proof -
  have e: "customer_email (shop_record example_env 1700000400000) \<noteq> ''eve@mail.test''"
    by (simp add: shop_record_def)
  from reauthorize_other_email_refused [OF shop_world_facts(1) e not_placeholder_eve,
      where e = example_env and sc = "[''orders'']"]
  have "handleAuthorize example_env ''shop.example'' ''eve@mail.test'' [''orders'']
        (shop_world example_env 1700000400000)
       = (Inr (RevokeFirst ''shop.example'' ''ann@mail.test'' ''eve@mail.test''),
          shop_world example_env 1700000400000)"
    by (simp add: shop_record_def)
  with shop_world_facts(1) e not_placeholder_eve show ?thesis by blast
qed

theorem reauthorize_other_placeholder_email:
  "stored (shop_world example_env 1700000400000) ''shop.example''
      = Some (shop_record example_env 1700000400000)
   \<and> customer_email (shop_record example_env 1700000400000) = ''ann@mail.test''
   \<and> handleAuthorize example_env ''shop.example'' ''user@example.com'' [''orders'', ''loyalty'']
        (shop_world example_env 1700000400000)
       = (Inr (InvalidEmail ''user@example.com'' ''shop.example''),
          shop_world example_env 1700000400000)
   \<and> InvalidEmail ''user@example.com'' ''shop.example''
       \<noteq> RevokeFirst ''shop.example'' ''ann@mail.test'' ''user@example.com''"
  by (simp add: handleAuthorize_placeholder placeholder_user shop_world_facts)
     (simp add: shop_record_def)

section \<open>Endpoint discovery\<close>

lemma loadConfig_apply:
  "\<exists>w'. loadConfig w = (Inr (loaded_config w), w') \<and> trace w' = trace w
     \<and> endpoint_cache w' = endpoint_cache w \<and> now_calls w' = now_calls w"
  by (cases "config_json_file w") (simp_all add: loadConfig_def loaded_config_def)

lemma getCachedEndpoint_apply:
  "\<exists>r w'. getCachedEndpoint e d w = (Inr r, w') \<and> map_option endpoint r = cache_source e w d
     \<and> trace w' = trace w @ [CacheLookup d]"
  by (cases "find (\<lambda>r. domain r = d) (endpoint_cache w)")
     (simp_all add: getCachedEndpoint_def cache_source_def emit_def Date_now_apply io_bind_def
        io_return_def Let_def)

lemma requests_trace: "trace w' = trace w \<Longrightarrow> requests w' = requests w"
  by (simp add: requests_def)

lemma requests_append:
  "trace w' = trace w @ evs \<Longrightarrow> requests w' = requests w + length (filter is_network evs)"
  by (simp add: requests_def)

lemma scan_records_nonempty: "scan_records records = Some u \<Longrightarrow> u \<noteq> []"
  using scan_records_Some [of records u] match_endpoint_Some [of _ u] by fastforce

lemma tryDNSDiscovery_apply:
  assumes "requests w' = requests w"
  shows "tryDNSDiscovery e d w' =
     (case dns_failure e w d of Some err \<Rightarrow> Inl err | None \<Rightarrow> Inr (dns_source e w d),
      emit (DnsTxt (dns_query d)) w')"
  using assms
  by (simp add: tryDNSDiscovery_def fetch_apply io_bind_def io_return_def io_throw_def
      DNS_QUERY_PREFIX_def dns_query_def dns_failure_def dns_source_def Let_def
      split: sum.splits)

lemma tryFallbackDiscovery_apply:
  assumes "requests w' = requests w + 1"
  shows "tryFallbackDiscovery e d w' =
     (case well_known_source e w d of
        Some s \<Rightarrow> (Inr (Some s), more_trace [HttpGet (well_known_url d)] w')
      | None \<Rightarrow> (Inr (header_source e w d),
                  more_trace [HttpGet (well_known_url d), HttpHead (root_url d)] w'))"
  unfolding well_known_url_def root_url_def well_known_source_def header_source_def
  using assms
  by (simp add: tryFallbackDiscovery_def fetch_apply io_bind_def io_return_def
      emit_more_trace more_trace_more_trace requests_more_trace is_network_def Let_def
      split: http_result.splits option.splits jsval.splits sum.splits)

lemma cache_source_cong:
  "endpoint_cache w' = endpoint_cache w \<Longrightarrow> now_calls w' = now_calls w \<Longrightarrow>
   cache_source e w' d = cache_source e w d"
  by (simp add: cache_source_def cong: option.case_cong if_cong)

lemma cache_then_return:
  "\<exists>w'. io_bind (Date_now e) (\<lambda>now. io_bind (cacheEndpoint (c now)) (\<lambda>_. io_return x)) w
          = (Inr x, w') \<and> trace w' = trace w"
  by (simp add: io_bind_def Date_now_apply cacheEndpoint_def io_return_def Let_def)

lemma dns_source_nonempty: "dns_source e w d = Some x \<Longrightarrow> x \<noteq> []"
  by (auto simp: dns_source_def scan_records_nonempty split: sum.splits)

lemma well_known_source_nonempty: "well_known_source e w d = Some x \<Longrightarrow> x \<noteq> []"
  by (auto simp: well_known_source_def split: http_result.splits option.splits jsval.splits
      if_splits)

lemma header_source_nonempty: "header_source e w d = Some x \<Longrightarrow> x \<noteq> []"
  by (auto simp: header_source_def truthy_def split: sum.splits if_splits)

lemma discover_override:
  "override_source e = Some x \<Longrightarrow> discoverSCPEndpoint e d w = (Inr (Some x), w)"
  by (auto simp: discoverSCPEndpoint_def override_source_def checkTestEndpoint_def
      getTestEndpointOverride_def io_return_def Let_def split: if_splits)

lemma no_override:
  "override_source e = None \<Longrightarrow> \<not> truthy (checkTestEndpoint e d)"
  by (auto simp: override_source_def checkTestEndpoint_def getTestEndpointOverride_def
      truthy_def Let_def split: if_splits option.splits)

lemma discover_demo:
  assumes "override_source e = None" and "demo_source w = Some x"
  shows "\<exists>w'. discoverSCPEndpoint e d w = (Inr (Some x), w') \<and> trace w' = trace w"
proof -
  from loadConfig_apply [of w] obtain w1 where
    l: "loadConfig w = (Inr (loaded_config w), w1)" and t: "trace w1 = trace w" by blast
  from assms(2) have dm: "demo_mode (loaded_config w)"
    and x: "x = or_else (Some (demo_endpoint (loaded_config w)))
                  ''https://demo.shoppercontextprotocol.io/v1''"
    by (auto simp: demo_source_def or_else_def split: if_splits)
  have "discoverSCPEndpoint e d w = (Inr (Some x), w1)"
    using no_override [OF assms(1), of d] l dm x
    by (simp add: discoverSCPEndpoint_def io_bind_def io_return_def Let_def)
  with t show ?thesis by blast
qed

lemma discover_chain:
  assumes o: "override_source e = None" and dm: "demo_source w = None"
  shows "\<exists>w'. discoverSCPEndpoint e d w =
          ((case cache_source e w d of
              Some x \<Rightarrow> Inr (Some x)
            | None \<Rightarrow>
               (case dns_failure e w d of
                  Some err \<Rightarrow> Inl err
                | None \<Rightarrow>
                   (case dns_source e w d of
                      Some x \<Rightarrow> Inr (Some x)
                    | None \<Rightarrow>
                       (case well_known_source e w d of
                          Some x \<Rightarrow> Inr (Some x)
                        | None \<Rightarrow> Inr (header_source e w d))))), w')
        \<and> trace w' = trace w @ CacheLookup d #
            (case cache_source e w d of
               Some x \<Rightarrow> []
             | None \<Rightarrow> DnsTxt (dns_query d) #
                (if dns_failure e w d \<noteq> None \<or> dns_source e w d \<noteq> None then []
                 else HttpGet (well_known_url d) #
                   (case well_known_source e w d of
                      Some x \<Rightarrow> []
                    | None \<Rightarrow> [HttpHead (root_url d)])))"
proof -
  from loadConfig_apply [of w] obtain w1 where
    l: "loadConfig w = (Inr (loaded_config w), w1)" and t1: "trace w1 = trace w"
    and c1: "endpoint_cache w1 = endpoint_cache w" "now_calls w1 = now_calls w" by blast
  from dm have ndm: "\<not> demo_mode (loaded_config w)"
    by (auto simp: demo_source_def split: if_splits)
  from getCachedEndpoint_apply [of e d w1] obtain r w2 where
    g: "getCachedEndpoint e d w1 = (Inr r, w2)"
    and cs: "map_option endpoint r = cache_source e w d"
    and t2: "trace w2 = trace w @ [CacheLookup d]"
    using cache_source_cong [OF c1, of e d] t1 by auto
  note start = no_override [OF o, of d] l ndm g
  show ?thesis
  proof (cases r)
    case (Some c)
    with cs have "cache_source e w d = Some (endpoint c)" by simp
    with start Some t2 show ?thesis
      by (simp add: discoverSCPEndpoint_def io_bind_def io_return_def Let_def)
  next
    case None
    with cs have cn: "cache_source e w d = None" by simp
    have r2: "requests w2 = requests w"
      using requests_append [OF t2] by (simp add: is_network_def)
    let ?w3 = "emit (DnsTxt (dns_query d)) w2"
    note dns = tryDNSDiscovery_apply [OF r2, of e d]
    have t3: "trace ?w3 = trace w @ [CacheLookup d, DnsTxt (dns_query d)]"
      using t2 by (simp add: emit_def)
    show ?thesis
    proof (cases "dns_failure e w d")
      case (Some err)
      with start None cn dns t3 show ?thesis
        by (simp add: discoverSCPEndpoint_def io_bind_def io_return_def Let_def)
    next
      case nf: None
      show ?thesis
      proof (cases "dns_source e w d")
        case (Some x)
        then have "truthy (Some x)" using dns_source_nonempty by (simp add: truthy_def)
        moreover from cache_then_return [where e = e and x = "Some x" and w = "?w3"
            and c = "\<lambda>now. \<lparr>domain = d, endpoint = the (Some x), capabilities = None,
                 discovered_at = now, ttl = 86400\<rparr>"] obtain w4 where
          "io_bind (Date_now e) (\<lambda>now. io_bind (cacheEndpoint
               \<lparr>domain = d, endpoint = the (Some x), capabilities = None,
                 discovered_at = now, ttl = 86400\<rparr>) (\<lambda>_. io_return (Some x))) ?w3
             = (Inr (Some x), w4)" and "trace w4 = trace ?w3" by blast
        ultimately show ?thesis
          using start None cn dns t3 nf Some
          by (simp add: discoverSCPEndpoint_def io_bind_def Let_def)
      next
        case dn: None
        have r3: "requests ?w3 = requests w + 1"
          using r2 by (simp add: requests_emit is_network_def)
        note fb = tryFallbackDiscovery_apply [OF r3, of e d]
        show ?thesis
        proof (cases "well_known_source e w d")
          case (Some x)
          let ?w5 = "more_trace [HttpGet (well_known_url d)] ?w3"
          have "truthy (Some x)" using Some well_known_source_nonempty by (simp add: truthy_def)
          moreover from cache_then_return [where e = e and x = "Some x" and w = "?w5"
            and c = "\<lambda>now. \<lparr>domain = d, endpoint = the (Some x), capabilities = None,
                 discovered_at = now, ttl = 86400\<rparr>"] obtain w6 where
            "io_bind (Date_now e) (\<lambda>now. io_bind (cacheEndpoint
               \<lparr>domain = d, endpoint = the (Some x), capabilities = None,
                 discovered_at = now, ttl = 86400\<rparr>) (\<lambda>_. io_return (Some x))) ?w5
             = (Inr (Some x), w6)" and "trace w6 = trace ?w5" by blast
          ultimately show ?thesis
            using start None cn dns t3 nf dn fb Some
            by (simp add: discoverSCPEndpoint_def io_bind_def Let_def more_trace_def truthy_def)
        next
          case wn: None
          let ?w5 = "more_trace [HttpGet (well_known_url d), HttpHead (root_url d)] ?w3"
          show ?thesis
          proof (cases "header_source e w d")
            case (Some x)
            have "truthy (Some x)" using Some header_source_nonempty by (simp add: truthy_def)
            moreover from cache_then_return [where e = e and x = "Some x" and w = "?w5"
            and c = "\<lambda>now. \<lparr>domain = d, endpoint = the (Some x), capabilities = None,
                 discovered_at = now, ttl = 86400\<rparr>"] obtain w6 where
              "io_bind (Date_now e) (\<lambda>now. io_bind (cacheEndpoint
                 \<lparr>domain = d, endpoint = the (Some x), capabilities = None,
                   discovered_at = now, ttl = 86400\<rparr>) (\<lambda>_. io_return (Some x))) ?w5
               = (Inr (Some x), w6)" and "trace w6 = trace ?w5" by blast
            ultimately show ?thesis
              using start None cn dns t3 nf dn fb wn Some
              by (simp add: discoverSCPEndpoint_def io_bind_def Let_def more_trace_def truthy_def)
          next
            case hn: None
            show ?thesis
              using start None cn dns t3 nf dn fb wn hn
              by (simp add: discoverSCPEndpoint_def io_bind_def io_return_def Let_def
                  more_trace_def truthy_def)
          qed
        qed
      qed
    qed
  qed
qed

text \<open>
  Claim C2. Discovery consults its sources in the order override, demo mode, cache, DNS
  TXT record, well-known document, response header, and returns the endpoint of the first
  source that has one: the cache lookup, the DNS query and the two HTTP requests are made
  in that order and only up to the first hit, and nothing is looked up when the override
  or demo mode applies. It returns null when all six have none (a DNS failure that is not
  a miss being thrown instead), and only then.
\<close>

theorem discovery_order:
  "(override_source e = Some x \<longrightarrow> discoverSCPEndpoint e d w = (Inr (Some x), w))
   \<and> (override_source e = None \<and> demo_source w = Some x \<longrightarrow>
        fst (discoverSCPEndpoint e d w) = Inr (Some x)
        \<and> trace (snd (discoverSCPEndpoint e d w)) = trace w)
   \<and> (override_source e = None \<and> demo_source w = None \<and> cache_source e w d = Some x \<longrightarrow>
        fst (discoverSCPEndpoint e d w) = Inr (Some x)
        \<and> trace (snd (discoverSCPEndpoint e d w)) = trace w @ [CacheLookup d])
   \<and> (override_source e = None \<and> demo_source w = None \<and> cache_source e w d = None
        \<and> dns_failure e w d = None \<and> dns_source e w d = Some x \<longrightarrow>
        fst (discoverSCPEndpoint e d w) = Inr (Some x)
        \<and> trace (snd (discoverSCPEndpoint e d w))
            = trace w @ [CacheLookup d, DnsTxt (dns_query d)])
   \<and> (override_source e = None \<and> demo_source w = None \<and> cache_source e w d = None
        \<and> dns_failure e w d = None \<and> dns_source e w d = None
        \<and> well_known_source e w d = Some x \<longrightarrow>
        fst (discoverSCPEndpoint e d w) = Inr (Some x)
        \<and> trace (snd (discoverSCPEndpoint e d w))
            = trace w @ [CacheLookup d, DnsTxt (dns_query d), HttpGet (well_known_url d)])
   \<and> (override_source e = None \<and> demo_source w = None \<and> cache_source e w d = None
        \<and> dns_failure e w d = None \<and> dns_source e w d = None
        \<and> well_known_source e w d = None \<and> header_source e w d = Some x \<longrightarrow>
        fst (discoverSCPEndpoint e d w) = Inr (Some x)
        \<and> trace (snd (discoverSCPEndpoint e d w))
            = trace w @ [CacheLookup d, DnsTxt (dns_query d), HttpGet (well_known_url d),
                         HttpHead (root_url d)])
   \<and> (override_source e = None \<and> demo_source w = None \<and> cache_source e w d = None
        \<and> dns_failure e w d = None \<and> dns_source e w d = None
        \<and> well_known_source e w d = None \<and> header_source e w d = None \<longrightarrow>
        fst (discoverSCPEndpoint e d w) = Inr None
        \<and> trace (snd (discoverSCPEndpoint e d w))
            = trace w @ [CacheLookup d, DnsTxt (dns_query d), HttpGet (well_known_url d),
                         HttpHead (root_url d)])
   \<and> (fst (discoverSCPEndpoint e d w) = Inr None \<longrightarrow>
        override_source e = None \<and> demo_source w = None \<and> cache_source e w d = None
        \<and> dns_source e w d = None \<and> well_known_source e w d = None
        \<and> header_source e w d = None)"
proof -
  have chain: "fst (discoverSCPEndpoint e d w) = R \<and> trace (snd (discoverSCPEndpoint e d w)) = trace w @ T"
    if "override_source e = None" "demo_source w = None"
      and "(case cache_source e w d of
              Some x \<Rightarrow> Inr (Some x)
            | None \<Rightarrow>
               (case dns_failure e w d of
                  Some err \<Rightarrow> Inl err
                | None \<Rightarrow>
                   (case dns_source e w d of
                      Some x \<Rightarrow> Inr (Some x)
                    | None \<Rightarrow>
                       (case well_known_source e w d of
                          Some x \<Rightarrow> Inr (Some x)
                        | None \<Rightarrow> Inr (header_source e w d))))) = R"
      and "CacheLookup d #
            (case cache_source e w d of
               Some x \<Rightarrow> []
             | None \<Rightarrow> DnsTxt (dns_query d) #
                (if dns_failure e w d \<noteq> None \<or> dns_source e w d \<noteq> None then []
                 else HttpGet (well_known_url d) #
                   (case well_known_source e w d of
                      Some x \<Rightarrow> []
                    | None \<Rightarrow> [HttpHead (root_url d)]))) = T" for R T
    using discover_chain [OF that(1,2), of d] that(3,4) by auto
  have c1: "override_source e = Some x \<longrightarrow> discoverSCPEndpoint e d w = (Inr (Some x), w)"
    using discover_override by blast
  have c2: "override_source e = None \<and> demo_source w = Some x \<longrightarrow>
        fst (discoverSCPEndpoint e d w) = Inr (Some x)
        \<and> trace (snd (discoverSCPEndpoint e d w)) = trace w"
    using discover_demo [of e w x d] by auto
  have c3: "override_source e = None \<and> demo_source w = None \<and> cache_source e w d = Some x \<longrightarrow>
        fst (discoverSCPEndpoint e d w) = Inr (Some x)
        \<and> trace (snd (discoverSCPEndpoint e d w)) = trace w @ [CacheLookup d]"
    by (intro impI chain) simp_all
  have c4: "override_source e = None \<and> demo_source w = None \<and> cache_source e w d = None
        \<and> dns_failure e w d = None \<and> dns_source e w d = Some x \<longrightarrow>
        fst (discoverSCPEndpoint e d w) = Inr (Some x)
        \<and> trace (snd (discoverSCPEndpoint e d w))
            = trace w @ [CacheLookup d, DnsTxt (dns_query d)]"
    by (intro impI chain) simp_all
  have c5: "override_source e = None \<and> demo_source w = None \<and> cache_source e w d = None
        \<and> dns_failure e w d = None \<and> dns_source e w d = None
        \<and> well_known_source e w d = Some x \<longrightarrow>
        fst (discoverSCPEndpoint e d w) = Inr (Some x)
        \<and> trace (snd (discoverSCPEndpoint e d w))
            = trace w @ [CacheLookup d, DnsTxt (dns_query d), HttpGet (well_known_url d)]"
    by (intro impI chain) simp_all
  have c6: "override_source e = None \<and> demo_source w = None \<and> cache_source e w d = None
        \<and> dns_failure e w d = None \<and> dns_source e w d = None
        \<and> well_known_source e w d = None \<and> header_source e w d = Some x \<longrightarrow>
        fst (discoverSCPEndpoint e d w) = Inr (Some x)
        \<and> trace (snd (discoverSCPEndpoint e d w))
            = trace w @ [CacheLookup d, DnsTxt (dns_query d), HttpGet (well_known_url d),
                         HttpHead (root_url d)]"
    by (intro impI chain) simp_all
  have c7: "override_source e = None \<and> demo_source w = None \<and> cache_source e w d = None
        \<and> dns_failure e w d = None \<and> dns_source e w d = None
        \<and> well_known_source e w d = None \<and> header_source e w d = None \<longrightarrow>
        fst (discoverSCPEndpoint e d w) = Inr None
        \<and> trace (snd (discoverSCPEndpoint e d w))
            = trace w @ [CacheLookup d, DnsTxt (dns_query d), HttpGet (well_known_url d),
                         HttpHead (root_url d)]"
    by (intro impI chain) simp_all
  have c8: "fst (discoverSCPEndpoint e d w) = Inr None \<longrightarrow>
        override_source e = None \<and> demo_source w = None \<and> cache_source e w d = None
        \<and> dns_source e w d = None \<and> well_known_source e w d = None
        \<and> header_source e w d = None"
  proof
    assume n: "fst (discoverSCPEndpoint e d w) = Inr None"
    have o: "override_source e = None"
    proof (cases "override_source e")
      case (Some y)
      with discover_override [of e y d w] n show ?thesis by simp
    qed simp
    have dm: "demo_source w = None"
    proof (cases "demo_source w")
      case (Some y)
      with discover_demo [OF o, of w y d] n show ?thesis by auto
    qed simp
    from discover_chain [OF o dm, of d] n
    show "override_source e = None \<and> demo_source w = None \<and> cache_source e w d = None
        \<and> dns_source e w d = None \<and> well_known_source e w d = None
        \<and> header_source e w d = None"
      using o dm by (auto split: option.splits)
  qed
  from c1 c2 c3 c4 c5 c6 c7 c8 show ?thesis by blast
qed

lemma live_world_unfold:
  "live_world = fresh_world\<lparr>config_json_file :=
      JsonObject (stringify_config (DEFAULT_CONFIG\<lparr>demo_mode := False\<rparr>))\<rparr>"
  by (simp add: live_world_def setDemoMode_def loadConfig_def saveConfig_def io_bind_def
      fresh_world_def truthy_def Let_def)

lemma example_sources:
  "override_source example_env = None"
  "override_source (dns_env records) = None"
  "override_source well_known_env = None"
  "override_source header_env = None"
  "override_source override_env = Some ''http://localhost:8787/v1''"
  by (simp_all add: override_source_def example_env_def dns_env_def well_known_env_def
      header_env_def override_env_def truthy_def)

lemma demo_sources:
  "demo_source fresh_world = Some ''https://demo.shoppercontextprotocol.io/v1''"
  "demo_source live_world = None"
  "demo_source cached_world = None"
  by (simp_all add: demo_source_def loaded_config_def fresh_world_def live_world_unfold
      cached_world_def DEFAULT_CONFIG_def merge_with_defaults_def stringify_config_def pick_def)

lemma cache_sources:
  "cache_source example_env cached_world ''shop.example'' = Some ''https://cached.shop.example/v1''"
  "cache_source e live_world d = None"
  by (simp_all add: cache_source_def cached_world_def live_world_unfold fresh_world_def
      example_env_def)

lemma dns_sources:
  "dns_failure example_env w d = None" "dns_source example_env w d = None"
  "dns_failure well_known_env w d = None" "dns_source well_known_env w d = None"
  "dns_failure header_env w d = None" "dns_source header_env w d = None"
  "dns_failure (dns_env records) w d = None"
  "dns_source (dns_env [[''v=scp1 endpoint=https://x.example/v1'']]) w d = Some ''https://x.example/v1''"
  by (simp_all add: dns_failure_def dns_source_def example_env_def well_known_env_def
      header_env_def dns_env_def example_record del: scan_records.simps)

lemma http_sources:
  "well_known_source example_env w d = None" "header_source example_env w d = None"
  "well_known_source well_known_env w d = Some ''https://wk.shop.example/v1''"
  "well_known_source header_env w d = None"
  "header_source header_env w d = Some ''https://hd.shop.example/v1''"
  by (simp_all add: well_known_source_def header_source_def example_env_def well_known_env_def
      header_env_def truthy_def)

theorem discovery_order_witness:
  "discoverSCPEndpoint override_env ''shop.example'' cached_world
     = (Inr (Some ''http://localhost:8787/v1''), cached_world)
   \<and> fst (discoverSCPEndpoint example_env ''shop.example'' fresh_world)
       = Inr (Some ''https://demo.shoppercontextprotocol.io/v1'')
   \<and> trace (snd (discoverSCPEndpoint example_env ''shop.example'' fresh_world)) = []
   \<and> fst (discoverSCPEndpoint example_env ''shop.example'' cached_world)
       = Inr (Some ''https://cached.shop.example/v1'')
   \<and> trace (snd (discoverSCPEndpoint example_env ''shop.example'' cached_world))
       = [CacheLookup ''shop.example'']
   \<and> fst (discoverSCPEndpoint (dns_env [[''v=scp1 endpoint=https://x.example/v1'']])
            ''shop.example'' live_world) = Inr (Some ''https://x.example/v1'')
   \<and> trace (snd (discoverSCPEndpoint (dns_env [[''v=scp1 endpoint=https://x.example/v1'']])
            ''shop.example'' live_world))
       = [CacheLookup ''shop.example'', DnsTxt (dns_query ''shop.example'')]
   \<and> fst (discoverSCPEndpoint well_known_env ''shop.example'' live_world)
       = Inr (Some ''https://wk.shop.example/v1'')
   \<and> trace (snd (discoverSCPEndpoint well_known_env ''shop.example'' live_world))
       = [CacheLookup ''shop.example'', DnsTxt (dns_query ''shop.example''),
          HttpGet (well_known_url ''shop.example'')]
   \<and> fst (discoverSCPEndpoint header_env ''shop.example'' live_world)
       = Inr (Some ''https://hd.shop.example/v1'')
   \<and> trace (snd (discoverSCPEndpoint header_env ''shop.example'' live_world))
       = [CacheLookup ''shop.example'', DnsTxt (dns_query ''shop.example''),
          HttpGet (well_known_url ''shop.example''), HttpHead (root_url ''shop.example'')]
   \<and> fst (discoverSCPEndpoint example_env ''shop.example'' live_world) = Inr None
   \<and> trace (snd (discoverSCPEndpoint example_env ''shop.example'' live_world))
       = [CacheLookup ''shop.example'', DnsTxt (dns_query ''shop.example''),
          HttpGet (well_known_url ''shop.example''), HttpHead (root_url ''shop.example'')]
   \<and> override_source example_env = None \<and> demo_source live_world = None
   \<and> cache_source example_env live_world ''shop.example'' = None
   \<and> dns_source example_env live_world ''shop.example'' = None
   \<and> well_known_source example_env live_world ''shop.example'' = None
   \<and> header_source example_env live_world ''shop.example'' = None"
proof -
  let ?d = "''shop.example''"
  have t0: "trace fresh_world = []" "trace live_world = []" "trace cached_world = []"
    by (simp_all add: fresh_world_def live_world_unfold cached_world_def)
  note facts = example_sources demo_sources cache_sources dns_sources http_sources t0
  have w1: "discoverSCPEndpoint override_env ?d cached_world
     = (Inr (Some ''http://localhost:8787/v1''), cached_world)"
    using discovery_order [where e = override_env and w = cached_world and d = ?d
        and x = "''http://localhost:8787/v1''"]
    by (simp add: facts)
  have w2: "fst (discoverSCPEndpoint example_env ?d fresh_world)
       = Inr (Some ''https://demo.shoppercontextprotocol.io/v1'')
     \<and> trace (snd (discoverSCPEndpoint example_env ?d fresh_world)) = []"
    using discovery_order [where e = example_env and w = fresh_world and d = ?d
        and x = "''https://demo.shoppercontextprotocol.io/v1''"]
    by (simp add: facts)
  have w3: "fst (discoverSCPEndpoint example_env ?d cached_world)
       = Inr (Some ''https://cached.shop.example/v1'')
     \<and> trace (snd (discoverSCPEndpoint example_env ?d cached_world)) = [CacheLookup ?d]"
    using discovery_order [where e = example_env and w = cached_world and d = ?d
        and x = "''https://cached.shop.example/v1''"]
    by (simp add: facts)
  have w4: "fst (discoverSCPEndpoint (dns_env [[''v=scp1 endpoint=https://x.example/v1'']])
            ?d live_world) = Inr (Some ''https://x.example/v1'')
     \<and> trace (snd (discoverSCPEndpoint (dns_env [[''v=scp1 endpoint=https://x.example/v1'']])
            ?d live_world)) = [CacheLookup ?d, DnsTxt (dns_query ?d)]"
    using discovery_order [where e = "dns_env [[''v=scp1 endpoint=https://x.example/v1'']]"
        and w = live_world and d = ?d and x = "''https://x.example/v1''"]
    by (simp add: facts)
  have w5: "fst (discoverSCPEndpoint well_known_env ?d live_world)
       = Inr (Some ''https://wk.shop.example/v1'')
     \<and> trace (snd (discoverSCPEndpoint well_known_env ?d live_world))
       = [CacheLookup ?d, DnsTxt (dns_query ?d), HttpGet (well_known_url ?d)]"
    using discovery_order [where e = well_known_env and w = live_world and d = ?d
        and x = "''https://wk.shop.example/v1''"]
    by (simp add: facts)
  have w6: "fst (discoverSCPEndpoint header_env ?d live_world)
       = Inr (Some ''https://hd.shop.example/v1'')
     \<and> trace (snd (discoverSCPEndpoint header_env ?d live_world))
       = [CacheLookup ?d, DnsTxt (dns_query ?d), HttpGet (well_known_url ?d),
          HttpHead (root_url ?d)]"
    using discovery_order [where e = header_env and w = live_world and d = ?d
        and x = "''https://hd.shop.example/v1''"]
    by (simp add: facts)
  have w7: "fst (discoverSCPEndpoint example_env ?d live_world) = Inr None
     \<and> trace (snd (discoverSCPEndpoint example_env ?d live_world))
       = [CacheLookup ?d, DnsTxt (dns_query ?d), HttpGet (well_known_url ?d),
          HttpHead (root_url ?d)]"
    using discovery_order [where e = example_env and w = live_world and d = ?d
        and x = "''https://hd.shop.example/v1''"]
    by (simp add: facts)
  from w1 w2 w3 w4 w5 w6 w7 show ?thesis by (simp add: facts)
qed

lemma discover_reaches_chain:
  assumes "override_source e = None" and "demo_source w = None"
  shows "\<exists>evs. trace (snd (discoverSCPEndpoint e d w)) = trace w @ CacheLookup d # evs"
  using discover_chain [OF assms, of d] by auto

lemma demo_source_None:
  "demo_source w = None \<Longrightarrow> \<exists>j. config_json_file w = JsonObject j \<and> json_demo_mode j = Some False"
  by (cases "config_json_file w")
     (auto simp: demo_source_def loaded_config_def DEFAULT_CONFIG_def merge_with_defaults_def
        pick_def split: if_splits option.splits)

lemma demo_source_after_disable:
  "demo_source (snd (setDemoMode False None w)) = None"
  by (cases "config_json_file w")
     (simp_all add: setDemoMode_def loadConfig_def saveConfig_def io_bind_def truthy_def Let_def
        demo_source_def loaded_config_def merge_with_defaults_def stringify_config_def pick_def)

lemma trace_setDemoMode: "trace (snd (setDemoMode b x w)) = trace w"
  by (cases "config_json_file w")
     (simp_all add: setDemoMode_def loadConfig_def saveConfig_def io_bind_def Let_def)

text \<open>
  Claim C10. With no configuration file and no override, \<open>loadConfig\<close> yields the
  defaults, in which demo mode is on, and discovery returns the default demo endpoint for
  every domain after writing the defaults to the file and nothing else: no cache lookup,
  no DNS query, no HTTP request. Whenever discovery does look anything up, there is no
  override and the configuration file holds \<open>demo_mode\<close> false; and once demo mode has
  been switched off with \<open>setDemoMode\<close>, discovery without an override starts with the
  cache lookup.
\<close>

theorem default_configuration_is_demo:
  "demo_mode DEFAULT_CONFIG
   \<and> (config_json_file w = NoFile \<and> override_source e = None \<longrightarrow>
        discoverSCPEndpoint e d w =
          (Inr (Some ''https://demo.shoppercontextprotocol.io/v1''),
           w\<lparr>config_json_file := JsonObject (stringify_config DEFAULT_CONFIG)\<rparr>))
   \<and> (trace (snd (discoverSCPEndpoint e d w)) \<noteq> trace w \<longrightarrow>
        override_source e = None
        \<and> (\<exists>j. config_json_file w = JsonObject j \<and> json_demo_mode j = Some False))
   \<and> (override_source e = None \<longrightarrow>
        (\<exists>evs. trace (snd (discoverSCPEndpoint e d (snd (setDemoMode False None w))))
                 = trace w @ CacheLookup d # evs))"
proof (intro conjI impI)
  show "demo_mode DEFAULT_CONFIG" by (simp add: DEFAULT_CONFIG_def)
next
  assume h: "config_json_file w = NoFile \<and> override_source e = None"
  then show "discoverSCPEndpoint e d w =
          (Inr (Some ''https://demo.shoppercontextprotocol.io/v1''),
           w\<lparr>config_json_file := JsonObject (stringify_config DEFAULT_CONFIG)\<rparr>)"
    using no_override [of e d]
    by (simp add: discoverSCPEndpoint_def io_bind_def io_return_def loadConfig_def Let_def
        DEFAULT_CONFIG_def or_else_def)
next
  assume t: "trace (snd (discoverSCPEndpoint e d w)) \<noteq> trace w"
  show o: "override_source e = None"
  proof (cases "override_source e")
    case (Some y)
    with discover_override [of e y d w] t show ?thesis by simp
  qed simp
  have "demo_source w = None"
  proof (cases "demo_source w")
    case (Some y)
    with discover_demo [OF o, of w y d] t show ?thesis by auto
  qed simp
  then show "\<exists>j. config_json_file w = JsonObject j \<and> json_demo_mode j = Some False"
    by (rule demo_source_None)
next
  assume o: "override_source e = None"
  from discover_reaches_chain [OF o demo_source_after_disable, of d w]
  show "\<exists>evs. trace (snd (discoverSCPEndpoint e d (snd (setDemoMode False None w))))
                 = trace w @ CacheLookup d # evs"
    by (simp add: trace_setDemoMode)
qed

theorem default_configuration_is_demo_witness:
  "config_json_file fresh_world = NoFile \<and> override_source example_env = None
   \<and> discoverSCPEndpoint example_env ''shop.example'' fresh_world =
       (Inr (Some ''https://demo.shoppercontextprotocol.io/v1''),
        fresh_world\<lparr>config_json_file := JsonObject (stringify_config DEFAULT_CONFIG)\<rparr>)
   \<and> trace (snd (discoverSCPEndpoint example_env ''shop.example'' live_world)) \<noteq> trace live_world
   \<and> (\<exists>j. config_json_file live_world = JsonObject j \<and> json_demo_mode j = Some False)
   \<and> (\<exists>evs. trace (snd (discoverSCPEndpoint example_env ''shop.example''
                 (snd (setDemoMode False None fresh_world))))
             = trace fresh_world @ CacheLookup ''shop.example'' # evs)"
proof -
  let ?d = "''shop.example''"
  note t1 = default_configuration_is_demo [where w = fresh_world and e = example_env and d = ?d]
  note t2 = default_configuration_is_demo [where w = live_world and e = example_env and d = ?d]
  have n: "config_json_file fresh_world = NoFile" by (simp add: fresh_world_def)
  have o: "override_source example_env = None" by (rule example_sources)
  from t1 n o have a: "discoverSCPEndpoint example_env ?d fresh_world =
       (Inr (Some ''https://demo.shoppercontextprotocol.io/v1''),
        fresh_world\<lparr>config_json_file := JsonObject (stringify_config DEFAULT_CONFIG)\<rparr>)"
    by blast
  from t1 o have c: "\<exists>evs. trace (snd (discoverSCPEndpoint example_env ?d
                 (snd (setDemoMode False None fresh_world))))
             = trace fresh_world @ CacheLookup ?d # evs"
    by blast
  then have b: "trace (snd (discoverSCPEndpoint example_env ?d live_world)) \<noteq> trace live_world"
    by (auto simp: live_world_def trace_setDemoMode)
  with t2 have j: "\<exists>j. config_json_file live_world = JsonObject j \<and> json_demo_mode j = Some False"
    by blast
  from n o a b j c show ?thesis by blast
qed

end
